theory Spec2Isabelle
  imports Main "HOL-Library.Word" "HOL-Library.Sublist"
begin

section \<open>Python values used by main.py\<close>

text \<open>
  A Python \<open>str\<close> is a sequence of Unicode code points, a \<open>bytes\<close> object a sequence of
  octets. String literals of the source are written \<open>lit ''...''\<close>.
\<close>

type_synonym str = "nat list"
type_synonym bytes = "8 word list"

definition lit :: "string \<Rightarrow> str" where
  "lit cs = map of_char cs"

text \<open>
  The character tables of the interpreter. On ASCII the classes are written out; beyond
  ASCII they are those of the Unicode database the interpreter was built with, which is a
  parameter of the model (\<open>uc_isalnum\<close>, \<open>uc_isspace\<close>, \<open>uc_lower\<close>). \<open>uc_lower\<close> sees the
  whole string and the position, as the lower-casing of a few letters depends on context.
\<close>

record unicode =
  uc_isalnum :: "nat \<Rightarrow> bool"
  uc_isspace :: "nat \<Rightarrow> bool"
  uc_lower :: "str \<Rightarrow> nat \<Rightarrow> str"

definition isalnum :: "unicode \<Rightarrow> nat \<Rightarrow> bool" where
  "isalnum u c =
     (if c < 128 then (48 \<le> c \<and> c \<le> 57) \<or> (65 \<le> c \<and> c \<le> 90) \<or> (97 \<le> c \<and> c \<le> 122)
      else uc_isalnum u c)"

definition isspace :: "unicode \<Rightarrow> nat \<Rightarrow> bool" where
  "isspace u c =
     (if c < 128 then (9 \<le> c \<and> c \<le> 13) \<or> (28 \<le> c \<and> c \<le> 32)
      else uc_isspace u c)"

definition lower_at :: "unicode \<Rightarrow> str \<Rightarrow> nat \<Rightarrow> str" where
  "lower_at u s i =
     (let c = s ! i
      in if c < 128 then (if 65 \<le> c \<and> c \<le> 90 then [c + 32] else [c])
         else uc_lower u s i)"

definition lower :: "unicode \<Rightarrow> str \<Rightarrow> str" where
  "lower u s = concat (map (lower_at u s) [0 ..< length s])"

definition rstrip :: "unicode \<Rightarrow> str \<Rightarrow> str" where
  "rstrip u s = rev (dropWhile (isspace u) (rev s))"

text \<open>The tables restricted to ASCII: no code point beyond ASCII is in a class or changes.\<close>

definition ascii_only :: unicode where
  "ascii_only = \<lparr>uc_isalnum = (\<lambda>c. False), uc_isspace = (\<lambda>c. False), uc_lower = (\<lambda>s i. [s ! i])\<rparr>"

section \<open>File names\<close>

text \<open>
  \<^verbatim>\<open>return "".join(c for c in name if c.isalnum() or c in ('_', '-')).rstrip()\<close>
\<close>

definition safe_filename :: "unicode \<Rightarrow> str \<Rightarrow> str" where
  "safe_filename u name =
     rstrip u (filter (\<lambda>c. isalnum u c \<or> c \<in> {of_char CHR ''_'', of_char CHR ''-''}) name)"

section \<open>Timestamps and paths\<close>

text \<open>
  \<^verbatim>\<open>datetime.now().strftime('%Y%m%d_%H%M%S')\<close>: the fields of a \<open>datetime\<close>, each printed in
  decimal and zero-padded to its width. Python keeps \<open>1 \<le> year \<le> 9999\<close>, \<open>1 \<le> month \<le> 12\<close>,
  \<open>1 \<le> day \<le> 31\<close>, \<open>hour < 24\<close>, \<open>minute < 60\<close>, \<open>second < 60\<close> in every \<open>datetime\<close>.
\<close>

record datetime =
  year :: nat
  month :: nat
  day :: nat
  hour :: nat
  minute :: nat
  second :: nat
  microsecond :: nat

definition valid_datetime :: "datetime \<Rightarrow> bool" where
  "valid_datetime d \<longleftrightarrow>
     1 \<le> year d \<and> year d \<le> 9999 \<and> 1 \<le> month d \<and> month d \<le> 12 \<and> 1 \<le> day d \<and> day d \<le> 31
     \<and> hour d < 24 \<and> minute d < 60 \<and> second d < 60 \<and> microsecond d < 1000000"

function decimal :: "nat \<Rightarrow> str" where
  "decimal n = (if n < 10 then [48 + n] else decimal (n div 10) @ [48 + n mod 10])"
  by pat_completeness auto
termination
  by (relation "measure id") auto

declare decimal.simps [simp del]

definition zpad :: "nat \<Rightarrow> nat \<Rightarrow> str" where
  "zpad w n = replicate (w - length (decimal n)) 48 @ decimal n"

definition strftime :: "datetime \<Rightarrow> str" where
  "strftime d =
     zpad 4 (year d) @ zpad 2 (month d) @ zpad 2 (day d) @ lit ''_''
     @ zpad 2 (hour d) @ zpad 2 (minute d) @ zpad 2 (second d)"

text \<open>
  \<^verbatim>\<open>os.path.join(a, b)\<close> on POSIX: an absolute \<open>b\<close> replaces \<open>a\<close>; otherwise \<open>b\<close> is appended,
  after a separator unless \<open>a\<close> is empty or already ends in one.
\<close>

definition path_join :: "str \<Rightarrow> str \<Rightarrow> str" where
  "path_join a b =
     (if b \<noteq> [] \<and> hd b = of_char CHR ''/'' then b
      else if a = [] \<or> last a = of_char CHR ''/'' then a @ b
      else a @ lit ''/'' @ b)"

section \<open>Exceptions and decoding\<close>

datatype exn =
    ValueError nat \<comment> \<open>\<open>dict()\<close>: the element with this index has not length 2\<close>
  | UnicodeDecodeError bytes \<comment> \<open>\<open>bytes.decode()\<close> on ill-formed UTF-8\<close>
  | FileExistsError str \<comment> \<open>\<open>mkdir\<close> on a path that exists and is not a directory\<close>
  | OSError str \<comment> \<open>any other failure of the operating system\<close>
  | DockerException str \<comment> \<open>\<open>docker.errors.DockerException\<close> and its subclasses\<close>
  | OtherError str \<comment> \<open>any other \<open>Exception\<close> raised by a library\<close>

fun is_DockerException :: "exn \<Rightarrow> bool" where
  "is_DockerException (DockerException m) = True"
| "is_DockerException e = False"

text \<open>
  \<^verbatim>\<open>output.decode()\<close>: strict UTF-8. \<open>None\<close> stands for the \<open>UnicodeDecodeError\<close> raised on
  an ill-formed sequence (a stray continuation byte, a truncated or overlong form, a
  surrogate, a value beyond U+10FFFF).
\<close>

definition cont :: "nat \<Rightarrow> bool" where
  "cont b \<longleftrightarrow> 128 \<le> b \<and> b \<le> 191"

fun utf8_decode :: "nat list \<Rightarrow> str option" where
  "utf8_decode [] = Some []"
| "utf8_decode (b # bs) =
     (if b < 128 then map_option ((#) b) (utf8_decode bs)
      else if 194 \<le> b \<and> b \<le> 223 then
        (case bs of
           c1 # r \<Rightarrow>
             if cont c1 then map_option ((#) ((b - 192) * 64 + (c1 - 128))) (utf8_decode r)
             else None
         | _ \<Rightarrow> None)
      else if 224 \<le> b \<and> b \<le> 239 then
        (case bs of
           c1 # c2 # r \<Rightarrow>
             if (if b = 224 then 160 else 128) \<le> c1 \<and> c1 \<le> (if b = 237 then 159 else 191) \<and> cont c2
             then map_option ((#) ((b - 224) * 4096 + (c1 - 128) * 64 + (c2 - 128))) (utf8_decode r)
             else None
         | _ \<Rightarrow> None)
      else if 240 \<le> b \<and> b \<le> 244 then
        (case bs of
           c1 # c2 # c3 # r \<Rightarrow>
             if (if b = 240 then 144 else 128) \<le> c1 \<and> c1 \<le> (if b = 244 then 143 else 191)
                \<and> cont c2 \<and> cont c3
             then map_option
                    ((#) ((b - 240) * 262144 + (c1 - 128) * 4096 + (c2 - 128) * 64 + (c3 - 128)))
                    (utf8_decode r)
             else None
         | _ \<Rightarrow> None)
      else None)"

definition decode :: "bytes \<Rightarrow> str option" where
  "decode bs = utf8_decode (map unat bs)"

section \<open>The container runtime, the host and the run's state\<close>

text \<open>
  A container handle of the runtime client: its name, its labels, the \<open>KEY=VALUE\<close> list
  \<open>attrs['Config']['Env']\<close>, and what \<open>exec_run\<close> and \<open>get_archive\<close> answer. \<open>exec_run\<close>
  raises or returns an exit code and the output; \<open>get_archive\<close> raises or returns a stream
  of chunks, which ends normally or by raising after the chunks it has yielded.
\<close>

record container =
  name :: str
  labels :: "str \<rightharpoonup> str"
  env :: "str list"
  exec_run :: "str \<Rightarrow> (str \<times> str) list \<Rightarrow> exn + int \<times> bytes"
  get_archive :: "str \<Rightarrow> exn + bytes list \<times> exn option"

text \<open>
  What the run does not decide: the interpreter's tables and its rendering \<open>str(e)\<close> of an
  exception, the clock (one reading per call of \<open>datetime.now()\<close>), the answers of
  \<open>docker.from_env()\<close> and \<open>client.containers.list()\<close>, and whether the operating system
  refuses to create a directory or to open a file for writing.
\<close>

record world =
  tables :: unicode
  exn_text :: "exn \<Rightarrow> str"
  clock :: "nat \<Rightarrow> datetime"
  from_env :: "exn option"
  containers_list :: "exn + container list"
  mkdir_error :: "str \<Rightarrow> exn option"
  open_error :: "str \<Rightarrow> exn option"

text \<open>
  A file written through \<open>gzip.open(path, 'wb')\<close> is kept as the bytes handed to the
  compressor: \<open>Gz b\<close> is the gzip file that decompresses to \<open>b\<close>. The codec itself is the
  standard library's.
\<close>

datatype gzfile = Gz bytes

fun gunzip :: "gzfile \<Rightarrow> bytes" where
  "gunzip (Gz b) = b"

datatype level = INFO | ERROR

text \<open>
  The calls the run makes, in order. \<open>Call_mysql\<close>, \<open>Call_django\<close> and \<open>Call_volume\<close> mark the
  entry of a strategy; the others are calls to the host and to the runtime.
\<close>

datatype event =
    Ev_mkdir str
  | Ev_from_env
  | Ev_list
  | Ev_exec str str "(str \<times> str) list"
  | Ev_get_archive str str
  | Ev_open str
  | Call_mysql str
  | Call_django str
  | Call_volume str str

record state =
  dirs :: "str set"
  files :: "str \<rightharpoonup> gzfile"
  logs :: "(level \<times> str) list"
  tick :: nat
  trace :: "event list"

definition emit :: "event \<Rightarrow> state \<Rightarrow> state" where
  "emit e s = s\<lparr>trace := trace s @ [e]\<rparr>"

definition logger_info :: "str \<Rightarrow> state \<Rightarrow> state" where
  "logger_info m s = s\<lparr>logs := logs s @ [(INFO, m)]\<rparr>"

definition logger_error :: "str \<Rightarrow> state \<Rightarrow> state" where
  "logger_error m s = s\<lparr>logs := logs s @ [(ERROR, m)]\<rparr>"

definition datetime_now :: "world \<Rightarrow> state \<Rightarrow> datetime \<times> state" where
  "datetime_now w s = (clock w (tick s), s\<lparr>tick := Suc (tick s)\<rparr>)"

definition path_exists :: "state \<Rightarrow> str \<Rightarrow> bool" where
  "path_exists s p \<longleftrightarrow> p \<in> dirs s \<or> files s p \<noteq> None"

text \<open>
  \<^verbatim>\<open>gzip.open(path, 'wb')\<close> creates or truncates the file; each \<open>write\<close> appends to what the
  file decompresses to.
\<close>

definition gzip_open :: "world \<Rightarrow> str \<Rightarrow> state \<Rightarrow> (exn + unit) \<times> state" where
  "gzip_open w path s0 =
     (let s = emit (Ev_open path) s0
      in case open_error w path of
           Some e \<Rightarrow> (Inl e, s)
         | None \<Rightarrow> (Inr (), s\<lparr>files := (files s)(path \<mapsto> Gz [])\<rparr>))"

definition gz_write :: "str \<Rightarrow> bytes \<Rightarrow> state \<Rightarrow> state" where
  "gz_write path chunk s =
     (case files s path of
        Some (Gz b) \<Rightarrow> s\<lparr>files := (files s)(path \<mapsto> Gz (b @ chunk))\<rparr>
      | None \<Rightarrow> s)"

section \<open>The backup strategies\<close>

text \<open>
  \<^verbatim>\<open>dict(item.split('=', 1) for item in container_env)\<close>: each entry is split at its first
  \<open>=\<close>; an entry without one gives a list of length 1, on which \<open>dict\<close> raises \<open>ValueError\<close>.
  A later entry overrides an earlier one with the same key.
\<close>

definition split_eq :: "str \<Rightarrow> str list" where
  "split_eq item =
     (if of_char CHR ''='' \<in> set item
      then [takeWhile (\<lambda>c. c \<noteq> of_char CHR ''='') item,
            tl (dropWhile (\<lambda>c. c \<noteq> of_char CHR ''='') item)]
      else [item])"

fun dict_of :: "nat \<Rightarrow> str list list \<Rightarrow> (str \<rightharpoonup> str) \<Rightarrow> exn + (str \<rightharpoonup> str)" where
  "dict_of i [] m = Inr m"
| "dict_of i (kv # rest) m =
     (case kv of
        [k, v] \<Rightarrow> dict_of (Suc i) rest (m(k \<mapsto> v))
      | _ \<Rightarrow> Inl (ValueError i))"

definition dict_get :: "(str \<rightharpoonup> str) \<Rightarrow> str \<Rightarrow> str \<Rightarrow> str" where
  "dict_get m k d = (case m k of Some v \<Rightarrow> v | None \<Rightarrow> d)"

definition mysql_backup_file :: "unicode \<Rightarrow> str \<Rightarrow> str \<Rightarrow> str \<Rightarrow> str" where
  "mysql_backup_file u backup_dir cname timestamp =
     path_join backup_dir
       (lit ''mysql_backup_'' @ safe_filename u cname @ lit ''_'' @ timestamp @ lit ''.sql.gz'')"

definition django_backup_file :: "unicode \<Rightarrow> str \<Rightarrow> str \<Rightarrow> str \<Rightarrow> str" where
  "django_backup_file u backup_dir cname timestamp =
     path_join backup_dir
       (lit ''django_backup_'' @ safe_filename u cname @ lit ''_'' @ timestamp @ lit ''.json.gz'')"

definition volume_backup_file :: "unicode \<Rightarrow> str \<Rightarrow> str \<Rightarrow> str \<Rightarrow> str \<Rightarrow> str" where
  "volume_backup_file u backup_dir cname vol timestamp =
     path_join backup_dir
       (lit ''volume_backup_'' @ safe_filename u cname @ lit ''_'' @ safe_filename u vol
        @ lit ''_'' @ timestamp @ lit ''.tar.gz'')"

definition mysqldump_cmd :: "str \<Rightarrow> str \<Rightarrow> str" where
  "mysqldump_cmd mysql_user mysql_database =
     lit ''mysqldump -u '' @ mysql_user @ lit '' --databases '' @ mysql_database"

definition dumpdata_cmd :: str where
  "dumpdata_cmd =
     lit ''python3 manage.py dumpdata -e contenttypes -e auth.permission --natural-foreign --natural-primary''"

text \<open>
  The end of both dump strategies, from \<^verbatim>\<open>if exit_code == 0:\<close> on: \<open>what\<close> is \<open>MySQL\<close> or
  \<open>Django\<close> in the two log lines.
\<close>

definition save_dump ::
  "world \<Rightarrow> str \<Rightarrow> container \<Rightarrow> str \<Rightarrow> int \<Rightarrow> bytes \<Rightarrow> state \<Rightarrow> (exn + bool) \<times> state" where
  "save_dump w what container backup_file exit_code output s =
     (if exit_code = 0 then
        (case gzip_open w backup_file s of
           (Inl e, s1) \<Rightarrow> (Inl e, s1)
         | (Inr _, s1) \<Rightarrow>
             (Inr True,
              logger_info (what @ lit '' backup saved to '' @ backup_file)
                (gz_write backup_file output s1)))
      else
        (case decode output of
           None \<Rightarrow> (Inl (UnicodeDecodeError output), s)
         | Some text \<Rightarrow>
             (Inr False,
              logger_error (what @ lit '' backup failed for '' @ name container @ lit '': '' @ text) s)))"

definition backup_mysql :: "world \<Rightarrow> container \<Rightarrow> str \<Rightarrow> state \<Rightarrow> (exn + bool) \<times> state" where
  "backup_mysql w container backup_dir s0 =
     (let (now, s1) = datetime_now w (emit (Call_mysql (name container)) s0);
          timestamp = strftime now;
          backup_file = mysql_backup_file (tables w) backup_dir (name container) timestamp
      in case dict_of 0 (map split_eq (env container)) Map.empty of
           Inl e \<Rightarrow> (Inl e, s1)
         | Inr env_dict \<Rightarrow>
             (let mysql_user = dict_get env_dict (lit ''MYSQL_USER'') (lit ''root'');
                  mysql_password = dict_get env_dict (lit ''MYSQL_PASSWORD'') [];
                  mysql_database = dict_get env_dict (lit ''MYSQL_DATABASE'') [];
                  cmd = mysqldump_cmd mysql_user mysql_database;
                  environment = [(lit ''MYSQL_PWD'', mysql_password)];
                  s2 = emit (Ev_exec (name container) cmd environment) s1
              in case exec_run container cmd environment of
                   Inl e \<Rightarrow> (Inl e, s2)
                 | Inr (exit_code, output) \<Rightarrow>
                     save_dump w (lit ''MySQL'') container backup_file exit_code output s2))"

definition backup_django :: "world \<Rightarrow> container \<Rightarrow> str \<Rightarrow> state \<Rightarrow> (exn + bool) \<times> state" where
  "backup_django w container backup_dir s0 =
     (let (now, s1) = datetime_now w (emit (Call_django (name container)) s0);
          timestamp = strftime now;
          backup_file = django_backup_file (tables w) backup_dir (name container) timestamp;
          s2 = emit (Ev_exec (name container) dumpdata_cmd []) s1
      in case exec_run container dumpdata_cmd [] of
           Inl e \<Rightarrow> (Inl e, s2)
         | Inr (exit_code, output) \<Rightarrow>
             save_dump w (lit ''Django'') container backup_file exit_code output s2)"

fun write_chunks :: "str \<Rightarrow> bytes list \<Rightarrow> state \<Rightarrow> state" where
  "write_chunks path [] s = s"
| "write_chunks path (chunk # bits) s = write_chunks path bits (gz_write path chunk s)"

text \<open>The body of the \<open>try\<close> of \<open>backup_volume\<close>.\<close>

definition volume_try :: "world \<Rightarrow> container \<Rightarrow> str \<Rightarrow> str \<Rightarrow> state \<Rightarrow> (exn + bool) \<times> state" where
  "volume_try w container vol backup_file s0 =
     (let s1 = emit (Ev_get_archive (name container) vol) s0
      in case get_archive container vol of
           Inl e \<Rightarrow> (Inl e, s1)
         | Inr (bits, broken) \<Rightarrow>
             (case gzip_open w backup_file s1 of
                (Inl e, s2) \<Rightarrow> (Inl e, s2)
              | (Inr _, s2) \<Rightarrow>
                  (let s3 = write_chunks backup_file bits s2
                   in case broken of
                        Some e \<Rightarrow> (Inl e, s3)
                      | None \<Rightarrow>
                          (Inr True, logger_info (lit ''Volume backup saved to '' @ backup_file) s3))))"

definition backup_volume ::
  "world \<Rightarrow> container \<Rightarrow> str \<Rightarrow> str \<Rightarrow> state \<Rightarrow> (exn + bool) \<times> state" where
  "backup_volume w container vol backup_dir s0 =
     (let (now, s1) = datetime_now w (emit (Call_volume (name container) vol) s0);
          timestamp = strftime now;
          backup_file = volume_backup_file (tables w) backup_dir (name container) vol timestamp
      in case volume_try w container vol backup_file s1 of
           (Inl e, s2) \<Rightarrow>
             (Inr False,
              logger_error
                (lit ''Error backing up volume '' @ vol @ lit '' for container '' @ name container
                 @ lit '': '' @ exn_text w e) s2)
         | (Inr b, s2) \<Rightarrow> (Inr b, s2))"

section \<open>The orchestrator\<close>

text \<open>\<^verbatim>\<open>Path(backup_dir).mkdir(parents=True, exist_ok=True)\<close>\<close>

definition ensure_backup_dir :: "world \<Rightarrow> str \<Rightarrow> state \<Rightarrow> (exn + str) \<times> state" where
  "ensure_backup_dir w backup_dir s0 =
     (let s = emit (Ev_mkdir backup_dir) s0
      in if backup_dir \<in> dirs s then (Inr backup_dir, s)
         else if files s backup_dir \<noteq> None then (Inl (FileExistsError backup_dir), s)
         else (case mkdir_error w backup_dir of
                 Some e \<Rightarrow> (Inl e, s)
               | None \<Rightarrow> (Inr backup_dir, s\<lparr>dirs := insert backup_dir (dirs s)\<rparr>)))"

text \<open>The body of the first \<open>try\<close> of \<open>main\<close>: the client, then the list of containers.\<close>

definition docker_connect :: "world \<Rightarrow> state \<Rightarrow> (exn + container list) \<times> state" where
  "docker_connect w s0 =
     (let s1 = emit Ev_from_env s0
      in case from_env w of
           Some e \<Rightarrow> (Inl e, s1)
         | None \<Rightarrow> (containers_list w, emit Ev_list s1))"

definition opted_in :: "world \<Rightarrow> container \<Rightarrow> bool" where
  "opted_in w container \<longleftrightarrow>
     lower (tables w) (dict_get (labels container) (lit ''DCBAK'') []) = lit ''true''"

text \<open>
  \<^verbatim>\<open>labels.get("DCBAK-VOLUME", False)\<close> as a condition holds when the label is there and
  not empty; \<open>vol\<close> is then its value.
\<close>

definition volume_label :: "container \<Rightarrow> str option" where
  "volume_label container =
     (case labels container (lit ''DCBAK-VOLUME'') of
        Some vol \<Rightarrow> if vol \<noteq> [] then Some vol else None
      | None \<Rightarrow> None)"

text \<open>The \<open>if\<close>/\<open>elif\<close> on \<open>DCBAK-TYPE\<close> inside the per-container \<open>try\<close>.\<close>

definition dump_step :: "world \<Rightarrow> str \<Rightarrow> container \<Rightarrow> state \<Rightarrow> (exn + unit) \<times> state" where
  "dump_step w backup_dir container s =
     (let backup_type = dict_get (labels container) (lit ''DCBAK-TYPE'') []
      in if backup_type = lit ''mysql'' then
           (case backup_mysql w container backup_dir (logger_info (lit '' > MySQL Backup'') s) of
              (Inl e, s1) \<Rightarrow> (Inl e, s1)
            | (Inr _, s1) \<Rightarrow> (Inr (), s1))
         else if backup_type = lit ''django'' then
           (case backup_django w container backup_dir (logger_info (lit '' > Django Backup'') s) of
              (Inl e, s1) \<Rightarrow> (Inl e, s1)
            | (Inr _, s1) \<Rightarrow> (Inr (), s1))
         else (Inr (), s))"

text \<open>The \<open>if\<close> on \<open>DCBAK-VOLUME\<close> that follows it.\<close>

definition volume_step :: "world \<Rightarrow> str \<Rightarrow> container \<Rightarrow> state \<Rightarrow> (exn + unit) \<times> state" where
  "volume_step w backup_dir container s =
     (case volume_label container of
        Some vol \<Rightarrow>
          (case backup_volume w container vol backup_dir
                  (logger_info (lit '' > Volume Backup'') s) of
             (Inl e, s1) \<Rightarrow> (Inl e, s1)
           | (Inr _, s1) \<Rightarrow> (Inr (), s1))
      | None \<Rightarrow> (Inr (), s))"

text \<open>The body of the per-container \<open>try\<close>: an exception of the first step skips the second.\<close>

definition container_try :: "world \<Rightarrow> str \<Rightarrow> container \<Rightarrow> state \<Rightarrow> (exn + unit) \<times> state" where
  "container_try w backup_dir container s =
     (case dump_step w backup_dir container s of
        (Inl e, s1) \<Rightarrow> (Inl e, s1)
      | (Inr _, s1) \<Rightarrow> volume_step w backup_dir container s1)"

text \<open>One round of \<^verbatim>\<open>for container in containers:\<close>\<close>

definition process_container :: "world \<Rightarrow> str \<Rightarrow> container \<Rightarrow> state \<Rightarrow> state" where
  "process_container w backup_dir container s =
     (if \<not> opted_in w container then s
      else
        (case container_try w backup_dir container
                (logger_info (lit ''Backing up '' @ name container) s) of
           (Inl e, s1) \<Rightarrow>
             logger_error
               (lit ''Error processing container '' @ name container @ lit '': '' @ exn_text w e) s1
         | (Inr _, s1) \<Rightarrow> s1))"

fun main_loop :: "world \<Rightarrow> str \<Rightarrow> container list \<Rightarrow> state \<Rightarrow> state" where
  "main_loop w backup_dir [] s = s"
| "main_loop w backup_dir (container # containers) s =
     main_loop w backup_dir containers (process_container w backup_dir container s)"

definition resolve_backup_dir :: "state \<Rightarrow> str" where
  "resolve_backup_dir s = (if path_exists s (lit ''/backup'') then lit ''/backup'' else lit ''./backup'')"

text \<open>
  \<open>main\<close> returns \<open>Inr ()\<close> when it returns, and \<open>Inl e\<close> when \<open>e\<close> leaves it uncaught: an
  exception of \<open>mkdir\<close>, or one of the connection that is not a \<open>DockerException\<close>.
\<close>

definition main :: "world \<Rightarrow> state \<Rightarrow> (exn + unit) \<times> state" where
  "main w s0 =
     (let backup_dir = resolve_backup_dir s0
      in case ensure_backup_dir w backup_dir s0 of
           (Inl e, s1) \<Rightarrow> (Inl e, s1)
         | (Inr _, s1) \<Rightarrow>
             (case docker_connect w s1 of
                (Inl e, s2) \<Rightarrow>
                  if is_DockerException e
                  then (Inr (), logger_error (lit ''Failed to connect to Docker: '' @ exn_text w e) s2)
                  else (Inl e, s2)
              | (Inr containers, s2) \<Rightarrow> (Inr (), main_loop w backup_dir containers s2)))"

section \<open>What a run is expected to call\<close>

text \<open>
  The strategy entries among the calls of a run, and the entries the labels of a container
  ask for: one dump strategy chosen by \<open>DCBAK-TYPE\<close>, and the volume strategy when
  \<open>DCBAK-VOLUME\<close> is set.
\<close>

fun is_call :: "event \<Rightarrow> bool" where
  "is_call (Call_mysql n) = True"
| "is_call (Call_django n) = True"
| "is_call (Call_volume n v) = True"
| "is_call e = False"

definition strategy_calls :: "state \<Rightarrow> event list" where
  "strategy_calls s = filter is_call (trace s)"

definition dump_calls :: "container \<Rightarrow> event list" where
  "dump_calls c =
     (let backup_type = dict_get (labels c) (lit ''DCBAK-TYPE'') []
      in if backup_type = lit ''mysql'' then [Call_mysql (name c)]
         else if backup_type = lit ''django'' then [Call_django (name c)]
         else [])"

definition volume_calls :: "container \<Rightarrow> event list" where
  "volume_calls c = (case volume_label c of Some vol \<Rightarrow> [Call_volume (name c) vol] | None \<Rightarrow> [])"

section \<open>The naming scheme of the specification\<close>

text \<open>
  \<open><dir>/<kind>_backup_<safe(name)>[_<safe(extra)>]_<YYYYMMDD_HHMMSS>.<ext>.gz\<close>, written
  out from the specification to be compared with the paths the strategies build; \<open>stamp\<close>
  is \<open>YYYYMMDD_HHMMSS\<close> digit by digit.
\<close>

definition digit :: "nat \<Rightarrow> nat" where
  "digit k = of_char CHR ''0'' + k"

definition stamp :: "datetime \<Rightarrow> str" where
  "stamp d =
     map digit [year d div 1000, year d div 100 mod 10, year d div 10 mod 10, year d mod 10,
                month d div 10, month d mod 10, day d div 10, day d mod 10]
     @ lit ''_''
     @ map digit [hour d div 10, hour d mod 10, minute d div 10, minute d mod 10,
                  second d div 10, second d mod 10]"

definition scheme_path :: "str \<Rightarrow> string \<Rightarrow> str \<Rightarrow> str option \<Rightarrow> str \<Rightarrow> string \<Rightarrow> str" where
  "scheme_path dir kind safe_name extra ts ext =
     dir @ lit ''/'' @ lit kind @ lit ''_backup_'' @ safe_name
     @ (case extra of Some x \<Rightarrow> lit ''_'' @ x | None \<Rightarrow> [])
     @ lit ''_'' @ ts @ lit ''.'' @ lit ext @ lit ''.gz''"

section \<open>A host and containers to run the model on\<close>

definition blit :: "string \<Rightarrow> bytes" where
  "blit cs = map of_char cs"

definition dt0 :: datetime where
  "dt0 = \<lparr>year = 2024, month = 3, day = 7, hour = 9, minute = 5, second = 42,
          microsecond = 123456\<rparr>"

definition state0 :: state where
  "state0 = \<lparr>dirs = {}, files = Map.empty, logs = [], tick = 0, trace = []\<rparr>"

text \<open>A rendering of exceptions, a clock that advances by a second at each reading.\<close>

fun message :: "exn \<Rightarrow> str" where
  "message (ValueError i) =
     lit ''dictionary update sequence element #'' @ decimal i @ lit '' has length 1; 2 is required''"
| "message (UnicodeDecodeError b) = lit ''utf-8 codec cannot decode the output''"
| "message (FileExistsError p) = lit ''File exists: '' @ p"
| "message (OSError m) = m"
| "message (DockerException m) = m"
| "message (OtherError m) = m"

definition quiet_host :: "container list \<Rightarrow> world" where
  "quiet_host cs =
     \<lparr>tables = ascii_only, exn_text = message, clock = (\<lambda>n. dt0\<lparr>second := 42 + n\<rparr>),
      from_env = None, containers_list = Inr cs,
      mkdir_error = (\<lambda>p. None), open_error = (\<lambda>p. None)\<rparr>"

definition box :: container where
  "box = \<lparr>name = lit ''box'', labels = Map.empty, env = [],
          exec_run = (\<lambda>cmd e. Inr (0, [])),
          get_archive = (\<lambda>p. Inl (DockerException (lit ''no such path'')))\<rparr>"

definition web :: container where
  "web = box\<lparr>name := lit ''web_1'',
            labels := [lit ''DCBAK'' \<mapsto> lit ''true'', lit ''DCBAK-TYPE'' \<mapsto> lit ''django'',
                       lit ''DCBAK-VOLUME'' \<mapsto> lit ''/data''],
            exec_run := (\<lambda>cmd e. Inr (0, blit ''[]'')),
            get_archive := (\<lambda>p. if p = lit ''/data'' then Inr ([blit ''abc'', blit ''def''], None)
                                 else Inl (DockerException (lit ''no such path'')))\<rparr>"

definition db :: container where
  "db = box\<lparr>name := lit ''db'',
           labels := [lit ''DCBAK'' \<mapsto> lit ''TRUE'', lit ''DCBAK-TYPE'' \<mapsto> lit ''mysql''],
           env := [lit ''MYSQL_USER=admin'', lit ''MYSQL_PASSWORD=s3cret=x'', lit ''MYSQL_DATABASE=shop''],
           exec_run := (\<lambda>cmd e. Inr (0, blit ''-- dump''))\<rparr>"

definition off :: container where
  "off = box\<lparr>name := lit ''cache'',
            labels := [lit ''DCBAK'' \<mapsto> lit ''false'', lit ''DCBAK-TYPE'' \<mapsto> lit ''mysql'',
                       lit ''DCBAK-VOLUME'' \<mapsto> lit ''/data'']\<rparr>"

definition broken :: container where
  "broken = box\<lparr>name := lit ''broken'',
               labels := [lit ''DCBAK'' \<mapsto> lit ''true'', lit ''DCBAK-TYPE'' \<mapsto> lit ''mysql'',
                          lit ''DCBAK-VOLUME'' \<mapsto> lit ''/var/lib/mysql''],
               env := [lit ''DEBUG'']\<rparr>"

definition no_daemon :: world where
  "no_daemon = (quiet_host [db, web])\<lparr>from_env :=
       Some (DockerException (lit ''Error while fetching server API version''))\<rparr>"

definition paused :: container where
  "paused = box\<lparr>name := lit ''site'',
               labels := [lit ''DCBAK'' \<mapsto> lit ''true'', lit ''DCBAK-TYPE'' \<mapsto> lit ''django''],
               exec_run := (\<lambda>cmd e. Inl (DockerException (lit ''409 Conflict: container is paused'')))\<rparr>"


definition garbled :: container where
  "garbled = box\<lparr>name := lit ''legacy'',
                labels := [lit ''DCBAK'' \<mapsto> lit ''true'', lit ''DCBAK-TYPE'' \<mapsto> lit ''mysql'',
                           lit ''DCBAK-VOLUME'' \<mapsto> lit ''/var/lib/mysql''],
                exec_run := (\<lambda>cmd e. Inr (1, [0xFF])),
                get_archive := (\<lambda>p. Inr ([blit ''tar''], None))\<rparr>"

definition stalled :: container where
  "stalled = paused\<lparr>labels := [lit ''DCBAK'' \<mapsto> lit ''true'', lit ''DCBAK-TYPE'' \<mapsto> lit ''django'',
                                  lit ''DCBAK-VOLUME'' \<mapsto> lit ''/data''],
                       get_archive := (\<lambda>p. Inr ([blit ''abc'', blit ''def''], None))\<rparr>"

text \<open>
  Hosts on which the run does not get to the containers: the daemon cannot be reached and
  the client library raises an exception of its transport, not a \<open>DockerException\<close>; the
  file system is read-only; \<open>/backup\<close> exists and is a regular file.
\<close>

definition no_route :: world where
  "no_route = (quiet_host [db, web])\<lparr>from_env := Some (OtherError (lit ''Connection aborted''))\<rparr>"

definition read_only :: world where
  "read_only = (quiet_host [db, web])\<lparr>mkdir_error :=
       (\<lambda>p. Some (OSError (lit ''Read-only file system'')))\<rparr>"

definition blocked :: state where
  "blocked = state0\<lparr>files := [lit ''/backup'' \<mapsto> Gz []]\<rparr>"

section \<open>Properties of the naming utility\<close>

lemma rstrip_subset: "set (rstrip u s) \<subseteq> set s"
  unfolding rstrip_def using set_dropWhileD by fastforce

lemma rstrip_no_trailing: "rstrip u s = [] \<or> \<not> isspace u (last (rstrip u s))"
proof (cases "dropWhile (isspace u) (rev s)")
  case Nil
  then show ?thesis by (simp add: rstrip_def)
next
  case (Cons x xs)
  then have "\<not> isspace u x"
    by (metis hd_dropWhile list.distinct(1) list.sel(1))
  with Cons show ?thesis by (simp add: rstrip_def)
qed

lemma rstrip_rstrip: "rstrip u (rstrip u s) = rstrip u s"
  by (simp add: rstrip_def dropWhile_idem)

lemma filter_rstrip_filter:
  "filter P (rstrip u (filter P s)) = rstrip u (filter P s)"
proof -
  have "set (rstrip u (filter P s)) \<subseteq> set (filter P s)" by (rule rstrip_subset)
  then have "\<forall>x \<in> set (rstrip u (filter P s)). P x" by auto
  then show ?thesis by (simp add: filter_id_conv)
qed

text \<open>
  C9. For every string, the sanitised name holds only alphanumeric characters, underscores
  and hyphens, does not end in whitespace, and sanitising it again changes nothing.
\<close>

theorem safe_filename_sanitizes:
  "(\<forall>c \<in> set (safe_filename u s). isalnum u c \<or> c = of_char CHR ''_'' \<or> c = of_char CHR ''-'')
   \<and> (safe_filename u s = [] \<or> \<not> isspace u (last (safe_filename u s)))
   \<and> safe_filename u (safe_filename u s) = safe_filename u s"
proof -
  let ?P = "\<lambda>c. isalnum u c \<or> c \<in> {of_char CHR ''_'', of_char CHR ''-''}"
  have "set (safe_filename u s) \<subseteq> set (filter ?P s)"
    unfolding safe_filename_def by (rule rstrip_subset)
  then have a: "\<forall>c \<in> set (safe_filename u s). isalnum u c \<or> c = of_char CHR ''_'' \<or> c = of_char CHR ''-''"
    by auto
  have b: "safe_filename u s = [] \<or> \<not> isspace u (last (safe_filename u s))"
    unfolding safe_filename_def by (rule rstrip_no_trailing)
  have c: "safe_filename u (safe_filename u s) = safe_filename u s"
    unfolding safe_filename_def by (simp only: filter_rstrip_filter rstrip_rstrip)
  from a b c show ?thesis by blast
qed

theorem safe_filename_sanitizes_witness:
  "safe_filename ascii_only (lit ''my app/db_1-x! '') = lit ''myappdb_1-x''
   \<and> list_all (\<lambda>c. isalnum ascii_only c \<or> c = of_char CHR ''_'' \<or> c = of_char CHR ''-'')
        (lit ''myappdb_1-x'')
   \<and> safe_filename ascii_only (lit ''myappdb_1-x'') = lit ''myappdb_1-x''"
proof -
  have e: "safe_filename ascii_only (lit ''my app/db_1-x! '') = lit ''myappdb_1-x''"
    by (simp add: safe_filename_def rstrip_def isalnum_def isspace_def lit_def)
  from safe_filename_sanitizes [of ascii_only "lit ''my app/db_1-x! ''"] show ?thesis
    unfolding e by (simp add: list_all_iff)
qed

section \<open>Effects of the operations\<close>

text \<open>
  Each operation leaves the directories alone, only extends the log and the trace, and
  touches no file but the one it names.
\<close>

lemma emit_fields [simp]:
  "dirs (emit e s) = dirs s" "files (emit e s) = files s" "logs (emit e s) = logs s"
  "tick (emit e s) = tick s" "trace (emit e s) = trace s @ [e]"
  by (simp_all add: emit_def)

lemma logger_info_fields [simp]:
  "dirs (logger_info m s) = dirs s" "files (logger_info m s) = files s"
  "logs (logger_info m s) = logs s @ [(INFO, m)]"
  "tick (logger_info m s) = tick s" "trace (logger_info m s) = trace s"
  by (simp_all add: logger_info_def)

lemma logger_error_fields [simp]:
  "dirs (logger_error m s) = dirs s" "files (logger_error m s) = files s"
  "logs (logger_error m s) = logs s @ [(ERROR, m)]"
  "tick (logger_error m s) = tick s" "trace (logger_error m s) = trace s"
  by (simp_all add: logger_error_def)

lemma gz_write_fields [simp]:
  "dirs (gz_write p c s) = dirs s" "logs (gz_write p c s) = logs s"
  "tick (gz_write p c s) = tick s" "trace (gz_write p c s) = trace s"
  by (simp_all add: gz_write_def split: option.splits gzfile.splits)

lemma gz_write_files:
  "files (gz_write p c s) =
     (case files s p of Some (Gz b) \<Rightarrow> (files s)(p \<mapsto> Gz (b @ c)) | None \<Rightarrow> files s)"
  by (simp add: gz_write_def split: option.splits gzfile.splits)

lemma write_chunks_fields [simp]:
  "dirs (write_chunks p bits s) = dirs s" "logs (write_chunks p bits s) = logs s"
  "tick (write_chunks p bits s) = tick s" "trace (write_chunks p bits s) = trace s"
  by (induction bits arbitrary: s) simp_all

lemma write_chunks_files:
  "files s p = Some (Gz b) \<Longrightarrow>
   files (write_chunks p bits s) = (files s)(p \<mapsto> Gz (b @ concat bits))"
proof (induction bits arbitrary: s b)
  case Nil
  then show ?case by (simp add: fun_upd_idem)
next
  case (Cons c bits)
  have "files (gz_write p c s) p = Some (Gz (b @ c))"
    using Cons.prems by (simp add: gz_write_files)
  from Cons.IH [OF this] show ?case
    using Cons.prems by (auto simp: gz_write_files)
qed

lemma write_chunks_frame:
  "q \<noteq> p \<Longrightarrow> files (write_chunks p bits s) q = files s q"
  by (induction bits arbitrary: s) (simp_all add: gz_write_files split: option.splits gzfile.splits)

lemma gzip_open_fields:
  assumes "gzip_open w p s = (r, s')"
  shows "dirs s' = dirs s \<and> logs s' = logs s \<and> tick s' = tick s
    \<and> trace s' = trace s @ [Ev_open p] \<and> (\<forall>q. q \<noteq> p \<longrightarrow> files s' q = files s q)"
  using assms by (auto simp: gzip_open_def Let_def split: option.splits)

lemma gzip_open_ok:
  "open_error w p = None \<Longrightarrow>
   gzip_open w p s = (Inr (), (emit (Ev_open p) s)\<lparr>files := (files s)(p \<mapsto> Gz [])\<rparr>)"
  by (simp add: gzip_open_def Let_def)

lemma gzip_open_Inr:
  "gzip_open w p s = (Inr u, s') \<Longrightarrow> files s' = (files s)(p \<mapsto> Gz [])"
  by (auto simp: gzip_open_def Let_def split: option.splits)

lemma gzip_open_Inl:
  "gzip_open w p s = (Inl e, s') \<Longrightarrow> files s' = files s"
  by (auto simp: gzip_open_def Let_def split: option.splits)

lemma save_dump_fields:
  assumes "save_dump w what c p code out s = (r, s')"
  shows "dirs s' = dirs s \<and> tick s' = tick s \<and> prefix (logs s) (logs s')
    \<and> strategy_calls s' = strategy_calls s \<and> prefix (trace s) (trace s')
    \<and> (\<forall>q. q \<noteq> p \<longrightarrow> files s' q = files s q)"
  using assms
  by (auto simp: save_dump_def strategy_calls_def gz_write_files
      dest!: gzip_open_fields
      split: if_splits prod.splits sum.splits option.splits gzfile.splits)

lemma backup_mysql_fields:
  assumes "backup_mysql w c dir s = (r, s')"
  shows "dirs s' = dirs s \<and> tick s' = Suc (tick s) \<and> prefix (logs s) (logs s')
    \<and> strategy_calls s' = strategy_calls s @ [Call_mysql (name c)]
    \<and> prefix (trace s) (trace s')
    \<and> (\<forall>q. q \<noteq> mysql_backup_file (tables w) dir (name c) (strftime (clock w (tick s)))
         \<longrightarrow> files s' q = files s q)"
  using assms
  by (auto simp: backup_mysql_def datetime_now_def Let_def strategy_calls_def
      dest!: save_dump_fields dest: append_prefixD
      split: sum.splits prod.splits)

lemma backup_django_fields:
  assumes "backup_django w c dir s = (r, s')"
  shows "dirs s' = dirs s \<and> tick s' = Suc (tick s) \<and> prefix (logs s) (logs s')
    \<and> strategy_calls s' = strategy_calls s @ [Call_django (name c)]
    \<and> prefix (trace s) (trace s')
    \<and> (\<forall>q. q \<noteq> django_backup_file (tables w) dir (name c) (strftime (clock w (tick s)))
         \<longrightarrow> files s' q = files s q)"
  using assms
  by (auto simp: backup_django_def datetime_now_def Let_def strategy_calls_def
      dest!: save_dump_fields dest: append_prefixD
      split: sum.splits prod.splits)

lemma volume_try_fields:
  assumes "volume_try w c vol p s = (r, s')"
  shows "dirs s' = dirs s \<and> tick s' = tick s \<and> prefix (logs s) (logs s')
    \<and> strategy_calls s' = strategy_calls s
    \<and> prefix (trace s) (trace s')
    \<and> (\<forall>q. q \<noteq> p \<longrightarrow> files s' q = files s q)"
  using assms
  by (auto simp: volume_try_def Let_def strategy_calls_def write_chunks_frame
      dest!: gzip_open_fields
      split: sum.splits prod.splits option.splits)

lemma backup_volume_fields:
  assumes "backup_volume w c vol dir s = (r, s')"
  shows "dirs s' = dirs s \<and> tick s' = Suc (tick s) \<and> prefix (logs s) (logs s')
    \<and> strategy_calls s' = strategy_calls s @ [Call_volume (name c) vol]
    \<and> prefix (trace s) (trace s')
    \<and> (\<forall>q. q \<noteq> volume_backup_file (tables w) dir (name c) vol (strftime (clock w (tick s)))
         \<longrightarrow> files s' q = files s q)
    \<and> \<not> isl r"
  using assms
  by (auto simp: backup_volume_def datetime_now_def Let_def strategy_calls_def
      dest!: volume_try_fields dest: append_prefixD
      split: sum.splits prod.splits)


lemma dump_step_fields:
  assumes "dump_step w dir c s = (r, s')"
  shows "dirs s' = dirs s \<and> prefix (logs s) (logs s') \<and> prefix (trace s) (trace s')
    \<and> strategy_calls s' = strategy_calls s @ dump_calls c"
  using assms
  by (auto simp: dump_step_def dump_calls_def Let_def strategy_calls_def
      dest!: backup_mysql_fields backup_django_fields dest: append_prefixD
      split: if_splits sum.splits prod.splits)

lemma volume_step_fields:
  assumes "volume_step w dir c s = (r, s')"
  shows "dirs s' = dirs s \<and> prefix (logs s) (logs s') \<and> prefix (trace s) (trace s')
    \<and> strategy_calls s' = strategy_calls s @ volume_calls c \<and> r = Inr ()"
  using assms
  by (auto simp: volume_step_def volume_calls_def Let_def strategy_calls_def
      dest!: backup_volume_fields dest: append_prefixD
      split: if_splits sum.splits prod.splits option.splits)

lemma container_try_fields:
  assumes "container_try w dir c s = (r, s')"
  shows "dirs s' = dirs s \<and> prefix (logs s) (logs s') \<and> prefix (trace s) (trace s')
    \<and> strategy_calls s' = strategy_calls s @ dump_calls c
         @ (if isl (fst (dump_step w dir c s)) then [] else volume_calls c)"
proof (cases "dump_step w dir c s")
  case (Pair r1 s1)
  note d = dump_step_fields [OF Pair]
  show ?thesis
  proof (cases r1)
    case (Inl e)
    with Pair assms have "s' = s1" by (simp add: container_try_def)
    with d Pair Inl show ?thesis by simp
  next
    case (Inr u)
    with Pair assms have "volume_step w dir c s1 = (r, s')" by (simp add: container_try_def)
    from volume_step_fields [OF this] d Pair Inr show ?thesis
      by (auto intro: prefix_order.trans)
  qed
qed

lemma process_container_fields:
  "dirs (process_container w dir c s) = dirs s
   \<and> prefix (logs s) (logs (process_container w dir c s))
   \<and> prefix (trace s) (trace (process_container w dir c s))"
proof (cases "opted_in w c")
  case False
  then show ?thesis by (simp add: process_container_def)
next
  case True
  obtain r s1 where t: "container_try w dir c (logger_info (lit ''Backing up '' @ name c) s) = (r, s1)"
    by (cases "container_try w dir c (logger_info (lit ''Backing up '' @ name c) s)")
  from container_try_fields [OF t] True t show ?thesis
    by (cases r) (auto simp: process_container_def dest: append_prefixD intro: prefix_order.trans)
qed

lemma main_loop_fields:
  "dirs (main_loop w dir cs s) = dirs s
   \<and> prefix (logs s) (logs (main_loop w dir cs s))
   \<and> prefix (trace s) (trace (main_loop w dir cs s))"
proof (induction cs arbitrary: s)
  case Nil
  show ?case by simp
next
  case (Cons c cs)
  from Cons.IH [of "process_container w dir c s"] process_container_fields [of w dir c s]
  show ?case by (auto intro: prefix_order.trans)
qed

lemma main_loop_append:
  "main_loop w dir (xs @ ys) s = main_loop w dir ys (main_loop w dir xs s)"
  by (induction xs arbitrary: s) simp_all

section \<open>Timestamps and artifact paths\<close>

lemma decimal_lt10: "n < 10 \<Longrightarrow> decimal n = [48 + n]"
  by (simp add: decimal.simps)

lemma decimal_lt100: "10 \<le> n \<Longrightarrow> n < 100 \<Longrightarrow> decimal n = [48 + n div 10, 48 + n mod 10]"
  by (subst decimal.simps) (simp add: decimal_lt10)

lemma decimal_lt1000:
  "100 \<le> n \<Longrightarrow> n < 1000 \<Longrightarrow> decimal n = [48 + n div 100, 48 + n div 10 mod 10, 48 + n mod 10]"
  by (subst decimal.simps) (simp add: decimal_lt100 div_mult2_eq [symmetric])

lemma decimal_lt10000:
  "1000 \<le> n \<Longrightarrow> n < 10000 \<Longrightarrow>
   decimal n = [48 + n div 1000, 48 + n div 100 mod 10, 48 + n div 10 mod 10, 48 + n mod 10]"
  by (subst decimal.simps) (simp add: decimal_lt1000 div_mult2_eq [symmetric])


lemma replicate_small:
  "replicate 3 x = [x, x, x]" "replicate 2 x = [x, x]" "replicate 1 x = [x]"
  by (simp_all add: numeral_3_eq_3 numeral_2_eq_2)

lemma zpad2: "n < 100 \<Longrightarrow> zpad 2 n = [digit (n div 10), digit (n mod 10)]"
  by (cases "n < 10") (simp_all add: zpad_def decimal_lt10 decimal_lt100 digit_def replicate_small)

lemma zpad4:
  assumes "n < 10000"
  shows "zpad 4 n = [digit (n div 1000), digit (n div 100 mod 10), digit (n div 10 mod 10), digit (n mod 10)]"
proof -
  consider "n < 10" | "10 \<le> n" "n < 100" | "100 \<le> n" "n < 1000" | "1000 \<le> n"
    by linarith
  then show ?thesis
  proof cases
    case 1 then show ?thesis by (simp add: zpad_def decimal_lt10 digit_def replicate_small)
  next
    case 2 then show ?thesis by (simp add: zpad_def decimal_lt100 digit_def replicate_small)
  next
    case 3 then show ?thesis by (simp add: zpad_def decimal_lt1000 digit_def replicate_small)
  next
    case 4 with assms show ?thesis by (simp add: zpad_def decimal_lt10000 digit_def)
  qed
qed


lemma strftime_stamp: "valid_datetime d \<Longrightarrow> strftime d = stamp d"
  by (simp add: valid_datetime_def strftime_def stamp_def zpad2 zpad4)

lemma strftime_microsecond: "strftime (d\<lparr>microsecond := m\<rparr>) = strftime d"
  by (simp add: strftime_def)

lemma backup_file_scheme:
  assumes "dir \<noteq> []" "last dir \<noteq> of_char CHR ''/''"
  shows "mysql_backup_file u dir n ts = scheme_path dir ''mysql'' (safe_filename u n) None ts ''sql''"
    and "django_backup_file u dir n ts = scheme_path dir ''django'' (safe_filename u n) None ts ''json''"
    and "volume_backup_file u dir n vol ts
         = scheme_path dir ''volume'' (safe_filename u n) (Some (safe_filename u vol)) ts ''tar''"
  using assms
  by (simp_all add: mysql_backup_file_def django_backup_file_def volume_backup_file_def
      scheme_path_def path_join_def lit_def)


lemma volume_try_ok:
  assumes "get_archive c vol = Inr (bits, None)" and "open_error w p = None"
  shows "fst (volume_try w c vol p s) = Inr True"
    and "files (snd (volume_try w c vol p s)) = (files s)(p \<mapsto> Gz (concat bits))"
proof -
  let ?s1 = "emit (Ev_get_archive (name c) vol) s"
  let ?s2 = "(emit (Ev_open p) ?s1)\<lparr>files := (files ?s1)(p \<mapsto> Gz [])\<rparr>"
  have o: "gzip_open w p ?s1 = (Inr (), ?s2)" using assms(2) by (rule gzip_open_ok)
  have f: "files (write_chunks p bits ?s2) = (files ?s2)(p \<mapsto> Gz ([] @ concat bits))"
    by (rule write_chunks_files) simp
  show "fst (volume_try w c vol p s) = Inr True"
    using assms(1) o by (simp add: volume_try_def Let_def)
  show "files (snd (volume_try w c vol p s)) = (files s)(p \<mapsto> Gz (concat bits))"
    using assms(1) o f by (simp add: volume_try_def Let_def)
qed

text \<open>
  C7. When the fetch yields a finite sequence of chunks and the artifact can be opened, the
  volume strategy succeeds and its artifact decompresses to the concatenation of the chunks
  in order.
\<close>

theorem backup_volume_concatenates:
  assumes "get_archive c vol = Inr (bits, None)"
    and "open_error w (volume_backup_file (tables w) dir (name c) vol (strftime (clock w (tick s))))
         = None"
  shows "fst (backup_volume w c vol dir s) = Inr True
    \<and> map_option gunzip
        (files (snd (backup_volume w c vol dir s))
           (volume_backup_file (tables w) dir (name c) vol (strftime (clock w (tick s)))))
      = Some (concat bits)"
proof -
  let ?p = "volume_backup_file (tables w) dir (name c) vol (strftime (clock w (tick s)))"
  let ?s1 = "(emit (Call_volume (name c) vol) s)\<lparr>tick := Suc (tick s)\<rparr>"
  obtain r s2 where t: "volume_try w c vol ?p ?s1 = (r, s2)"
    by (cases "volume_try w c vol ?p ?s1")
  from volume_try_ok [OF assms, of ?s1] t
  have "r = Inr True" and "files s2 = (files ?s1)(?p \<mapsto> Gz (concat bits))" by simp_all
  with t show ?thesis
    by (simp add: backup_volume_def datetime_now_def Let_def)
qed

theorem backup_volume_concatenates_witness:
  "get_archive web (lit ''/data'') = Inr ([blit ''abc'', blit ''def''], None)
   \<and> fst (backup_volume (quiet_host [web]) web (lit ''/data'') (lit ''/backup'') state0) = Inr True
   \<and> map_option gunzip
        (files (snd (backup_volume (quiet_host [web]) web (lit ''/data'') (lit ''/backup'') state0))
           (lit ''/backup/volume_backup_web_1_data_20240307_090542.tar.gz''))
      = Some (blit ''abcdef'')"
proof -
  have g: "get_archive web (lit ''/data'') = Inr ([blit ''abc'', blit ''def''], None)"
    by (simp add: web_def box_def)
  have o: "open_error (quiet_host [web])
             (volume_backup_file (tables (quiet_host [web])) (lit ''/backup'') (name web)
                (lit ''/data'') (strftime (clock (quiet_host [web]) (tick state0)))) = None"
    by (simp add: quiet_host_def)
  have p: "volume_backup_file (tables (quiet_host [web])) (lit ''/backup'') (name web)
                (lit ''/data'') (strftime (clock (quiet_host [web]) (tick state0)))
           = lit ''/backup/volume_backup_web_1_data_20240307_090542.tar.gz''"
    by (simp add: volume_backup_file_def path_join_def safe_filename_def rstrip_def isalnum_def
        isspace_def quiet_host_def ascii_only_def web_def box_def state0_def dt0_def
        strftime_def zpad_def decimal.simps lit_def)
  have c: "concat [blit ''abc'', blit ''def''] = blit ''abcdef''"
    by (simp add: blit_def)
  from backup_volume_concatenates [OF g o] g show ?thesis
    unfolding p c by simp
qed


lemma save_dump_True:
  "save_dump w what c p code out s = (Inr True, s') \<Longrightarrow> files s' p = Some (Gz out)"
  by (auto simp: save_dump_def gz_write_files dest!: gzip_open_Inr
      split: if_splits prod.splits sum.splits option.splits)

lemma backup_mysql_True:
  "backup_mysql w c dir s = (Inr True, s') \<Longrightarrow>
   files s' (mysql_backup_file (tables w) dir (name c) (strftime (clock w (tick s)))) \<noteq> None"
  by (auto simp: backup_mysql_def datetime_now_def Let_def dest!: save_dump_True
      split: sum.splits prod.splits)

lemma backup_django_True:
  "backup_django w c dir s = (Inr True, s') \<Longrightarrow>
   files s' (django_backup_file (tables w) dir (name c) (strftime (clock w (tick s)))) \<noteq> None"
  by (auto simp: backup_django_def datetime_now_def Let_def dest!: save_dump_True
      split: sum.splits prod.splits)

lemma volume_try_True:
  "volume_try w c vol p s = (Inr True, s') \<Longrightarrow> files s' p \<noteq> None"
  by (auto simp: volume_try_def Let_def write_chunks_files dest!: gzip_open_Inr
      split: sum.splits prod.splits option.splits)

lemma backup_volume_True:
  "backup_volume w c vol dir s = (Inr True, s') \<Longrightarrow>
   files s' (volume_backup_file (tables w) dir (name c) vol (strftime (clock w (tick s)))) \<noteq> None"
  by (auto simp: backup_volume_def datetime_now_def Let_def dest!: volume_try_True
      split: sum.splits prod.splits)

lemma resolve_backup_dir_plain:
  "resolve_backup_dir s \<noteq> [] \<and> last (resolve_backup_dir s) \<noteq> of_char CHR ''/''"
  by (simp add: resolve_backup_dir_def lit_def)

text \<open>
  C8. The three strategies build their artifact path after the scheme of the specification,
  with kind and extension mysql/sql, django/json and volume/tar, only the volume path with
  the extra segment; a strategy that succeeds has written that path and no strategy touches
  another one; the timestamp has 15 characters and does not depend on the microseconds. The
  directory that \<open>main\<close> passes is never empty and never ends in a separator.
\<close>

theorem artifact_naming_scheme:
  assumes "dir \<noteq> []" and "last dir \<noteq> of_char CHR ''/''" and "valid_datetime (clock w (tick s))"
  shows
    "mysql_backup_file (tables w) dir (name c) (strftime (clock w (tick s)))
       = scheme_path dir ''mysql'' (safe_filename (tables w) (name c)) None
           (stamp (clock w (tick s))) ''sql''
     \<and> django_backup_file (tables w) dir (name c) (strftime (clock w (tick s)))
       = scheme_path dir ''django'' (safe_filename (tables w) (name c)) None
           (stamp (clock w (tick s))) ''json''
     \<and> volume_backup_file (tables w) dir (name c) vol (strftime (clock w (tick s)))
       = scheme_path dir ''volume'' (safe_filename (tables w) (name c))
           (Some (safe_filename (tables w) vol)) (stamp (clock w (tick s))) ''tar''
     \<and> (\<forall>r s'. backup_mysql w c dir s = (r, s') \<longrightarrow>
           (r = Inr True \<longrightarrow>
              files s' (mysql_backup_file (tables w) dir (name c) (strftime (clock w (tick s)))) \<noteq> None)
           \<and> (\<forall>q. q \<noteq> mysql_backup_file (tables w) dir (name c) (strftime (clock w (tick s)))
                \<longrightarrow> files s' q = files s q))
     \<and> (\<forall>r s'. backup_django w c dir s = (r, s') \<longrightarrow>
           (r = Inr True \<longrightarrow>
              files s' (django_backup_file (tables w) dir (name c) (strftime (clock w (tick s)))) \<noteq> None)
           \<and> (\<forall>q. q \<noteq> django_backup_file (tables w) dir (name c) (strftime (clock w (tick s)))
                \<longrightarrow> files s' q = files s q))
     \<and> (\<forall>r s'. backup_volume w c vol dir s = (r, s') \<longrightarrow>
           (r = Inr True \<longrightarrow>
              files s' (volume_backup_file (tables w) dir (name c) vol (strftime (clock w (tick s))))
                \<noteq> None)
           \<and> (\<forall>q. q \<noteq> volume_backup_file (tables w) dir (name c) vol (strftime (clock w (tick s)))
                \<longrightarrow> files s' q = files s q))
     \<and> length (stamp (clock w (tick s))) = 15
     \<and> (\<forall>m. strftime ((clock w (tick s))\<lparr>microsecond := m\<rparr>) = strftime (clock w (tick s)))
     \<and> resolve_backup_dir s \<noteq> [] \<and> last (resolve_backup_dir s) \<noteq> of_char CHR ''/''"
proof -
  note st = strftime_stamp [OF assms(3)]
  have a: "mysql_backup_file (tables w) dir (name c) (strftime (clock w (tick s)))
       = scheme_path dir ''mysql'' (safe_filename (tables w) (name c)) None
           (stamp (clock w (tick s))) ''sql''"
    using backup_file_scheme(1) [OF assms(1,2)] st by simp
  have b: "django_backup_file (tables w) dir (name c) (strftime (clock w (tick s)))
       = scheme_path dir ''django'' (safe_filename (tables w) (name c)) None
           (stamp (clock w (tick s))) ''json''"
    using backup_file_scheme(2) [OF assms(1,2)] st by simp
  have c: "volume_backup_file (tables w) dir (name c) vol (strftime (clock w (tick s)))
       = scheme_path dir ''volume'' (safe_filename (tables w) (name c))
           (Some (safe_filename (tables w) vol)) (stamp (clock w (tick s))) ''tar''"
    using backup_file_scheme(3) [OF assms(1,2)] st by simp
  have d: "\<forall>r s'. backup_mysql w c dir s = (r, s') \<longrightarrow>
           (r = Inr True \<longrightarrow>
              files s' (mysql_backup_file (tables w) dir (name c) (strftime (clock w (tick s)))) \<noteq> None)
           \<and> (\<forall>q. q \<noteq> mysql_backup_file (tables w) dir (name c) (strftime (clock w (tick s)))
                \<longrightarrow> files s' q = files s q)"
    using backup_mysql_True backup_mysql_fields by blast
  have e: "\<forall>r s'. backup_django w c dir s = (r, s') \<longrightarrow>
           (r = Inr True \<longrightarrow>
              files s' (django_backup_file (tables w) dir (name c) (strftime (clock w (tick s)))) \<noteq> None)
           \<and> (\<forall>q. q \<noteq> django_backup_file (tables w) dir (name c) (strftime (clock w (tick s)))
                \<longrightarrow> files s' q = files s q)"
    using backup_django_True backup_django_fields by blast
  have f: "\<forall>r s'. backup_volume w c vol dir s = (r, s') \<longrightarrow>
           (r = Inr True \<longrightarrow>
              files s' (volume_backup_file (tables w) dir (name c) vol (strftime (clock w (tick s))))
                \<noteq> None)
           \<and> (\<forall>q. q \<noteq> volume_backup_file (tables w) dir (name c) vol (strftime (clock w (tick s)))
                \<longrightarrow> files s' q = files s q)"
    using backup_volume_True backup_volume_fields by blast
  have g: "length (stamp (clock w (tick s))) = 15" by (simp add: stamp_def lit_def)
  have h: "\<forall>m. strftime ((clock w (tick s))\<lparr>microsecond := m\<rparr>) = strftime (clock w (tick s))"
    by (simp add: strftime_microsecond)
  from a b c d e f g h resolve_backup_dir_plain [of s] show ?thesis by blast
qed


theorem artifact_naming_scheme_witness:
  "valid_datetime (clock (quiet_host [web]) (tick state0))
   \<and> mysql_backup_file (tables (quiet_host [web])) (lit ''/backup'') (name web)
         (strftime (clock (quiet_host [web]) (tick state0)))
       = lit ''/backup/mysql_backup_web_1_20240307_090542.sql.gz''
   \<and> django_backup_file (tables (quiet_host [web])) (lit ''/backup'') (name web)
         (strftime (clock (quiet_host [web]) (tick state0)))
       = lit ''/backup/django_backup_web_1_20240307_090542.json.gz''
   \<and> volume_backup_file (tables (quiet_host [web])) (lit ''/backup'') (name web) (lit ''/data'')
         (strftime (clock (quiet_host [web]) (tick state0)))
       = lit ''/backup/volume_backup_web_1_data_20240307_090542.tar.gz''"
proof -
  have h1: "lit ''/backup'' \<noteq> []" and h2: "last (lit ''/backup'') \<noteq> of_char CHR ''/''"
    by (simp_all add: lit_def)
  have h3: "valid_datetime (clock (quiet_host [web]) (tick state0))"
    by (simp add: valid_datetime_def quiet_host_def dt0_def state0_def)
  have n: "safe_filename (tables (quiet_host [web])) (name web) = lit ''web_1''"
    "safe_filename (tables (quiet_host [web])) (lit ''/data'') = lit ''data''"
    by (simp_all add: safe_filename_def rstrip_def isalnum_def isspace_def quiet_host_def
        ascii_only_def web_def box_def lit_def)
  have s: "stamp (clock (quiet_host [web]) (tick state0)) = lit ''20240307_090542''"
    by (simp add: stamp_def digit_def quiet_host_def dt0_def state0_def lit_def)
  have e: "scheme_path (lit ''/backup'') ''mysql'' (lit ''web_1'') None (lit ''20240307_090542'') ''sql''
             = lit ''/backup/mysql_backup_web_1_20240307_090542.sql.gz''"
    "scheme_path (lit ''/backup'') ''django'' (lit ''web_1'') None (lit ''20240307_090542'') ''json''
             = lit ''/backup/django_backup_web_1_20240307_090542.json.gz''"
    "scheme_path (lit ''/backup'') ''volume'' (lit ''web_1'') (Some (lit ''data''))
         (lit ''20240307_090542'') ''tar''
             = lit ''/backup/volume_backup_web_1_data_20240307_090542.tar.gz''"
    by (simp_all add: scheme_path_def lit_def)
  from artifact_naming_scheme [OF h1 h2 h3, of web "lit ''/data''"] h3 show ?thesis
    unfolding n s e by blast
qed

section \<open>Dispatch on the labels\<close>

lemma process_container_calls:
  assumes "opted_in w c"
  shows "strategy_calls (process_container w dir c s)
         = strategy_calls s @ dump_calls c
           @ (if isl (fst (dump_step w dir c (logger_info (lit ''Backing up '' @ name c) s)))
              then [] else volume_calls c)"
proof -
  let ?s0 = "logger_info (lit ''Backing up '' @ name c) s"
  obtain r s1 where t: "container_try w dir c ?s0 = (r, s1)"
    by (cases "container_try w dir c ?s0")
  have "strategy_calls ?s0 = strategy_calls s" by (simp add: strategy_calls_def)
  with container_try_fields [OF t] assms t show ?thesis
    by (cases r) (simp_all add: process_container_def strategy_calls_def)
qed

lemma process_container_skip: "\<not> opted_in w c \<Longrightarrow> process_container w dir c s = s"
  by (simp add: process_container_def)

lemma lower_true: "lower u (lit ''TRUE'') = lit ''true''"
  by (simp add: lower_def lower_at_def lit_def upt_rec)

lemma lower_false: "lower u (lit ''false'') \<noteq> lit ''true''"
  by (simp add: lower_def lower_at_def lit_def upt_rec)

lemma lower_empty: "lower u [] \<noteq> lit ''true''"
  by (simp add: lower_def lit_def)

lemma count_volume_calls: "count_list (volume_calls c) (Call_mysql n) = 0"
  by (simp add: volume_calls_def split: option.splits)

text \<open>
  C3. A container that is not opted in is left alone: the state after its round is the
  state before it, so no strategy is entered and no file is created; that is the case when
  \<open>DCBAK\<close> is absent or \<open>false\<close>. A strategy is entered only for a container whose
  \<open>DCBAK\<close> is \<open>true\<close> in lower case. With \<open>DCBAK = TRUE\<close> and \<open>DCBAK-TYPE = mysql\<close> the
  database dump is entered exactly once.
\<close>

theorem opt_in_gate:
  "(\<not> opted_in w c \<longrightarrow> process_container w dir c s = s)
   \<and> (strategy_calls (process_container w dir c s) \<noteq> strategy_calls s \<longrightarrow> opted_in w c)
   \<and> (files (process_container w dir c s) \<noteq> files s \<longrightarrow> opted_in w c)
   \<and> (labels c (lit ''DCBAK'') = None \<longrightarrow> \<not> opted_in w c)
   \<and> (labels c (lit ''DCBAK'') = Some (lit ''false'') \<longrightarrow> \<not> opted_in w c)
   \<and> (labels c (lit ''DCBAK'') = Some (lit ''TRUE'')
        \<and> labels c (lit ''DCBAK-TYPE'') = Some (lit ''mysql'') \<longrightarrow>
          opted_in w c
          \<and> count_list (strategy_calls (process_container w dir c s)) (Call_mysql (name c))
            = Suc (count_list (strategy_calls s) (Call_mysql (name c)))
          \<and> Call_django (name c) \<notin> set (dump_calls c))"
proof -
  have a: "\<not> opted_in w c \<longrightarrow> process_container w dir c s = s"
    by (simp add: process_container_skip)
  have b: "labels c (lit ''DCBAK'') = None \<longrightarrow> \<not> opted_in w c"
    by (simp add: opted_in_def dict_get_def lower_empty)
  have c: "labels c (lit ''DCBAK'') = Some (lit ''false'') \<longrightarrow> \<not> opted_in w c"
    by (simp add: opted_in_def dict_get_def lower_false)
  have d: "opted_in w c
          \<and> count_list (strategy_calls (process_container w dir c s)) (Call_mysql (name c))
            = Suc (count_list (strategy_calls s) (Call_mysql (name c)))
          \<and> Call_django (name c) \<notin> set (dump_calls c)"
    if l: "labels c (lit ''DCBAK'') = Some (lit ''TRUE'')"
      "labels c (lit ''DCBAK-TYPE'') = Some (lit ''mysql'')"
  proof -
    have o: "opted_in w c" using l by (simp add: opted_in_def dict_get_def lower_true)
    have dc: "dump_calls c = [Call_mysql (name c)]"
      using l by (simp add: dump_calls_def dict_get_def)
    show ?thesis
      using o by (simp add: process_container_calls [OF o] dc count_volume_calls)
  qed
  from a b c d show ?thesis
    by auto
qed

theorem opt_in_gate_witness:
  "\<not> opted_in (quiet_host [off, db]) off
   \<and> process_container (quiet_host [off, db]) (lit ''/backup'') off state0 = state0
   \<and> opted_in (quiet_host [off, db]) db
   \<and> count_list (strategy_calls (process_container (quiet_host [off, db]) (lit ''/backup'') db state0))
        (Call_mysql (lit ''db'')) = 1"
proof -
  have l: "labels off (lit ''DCBAK'') = Some (lit ''false'')"
    "labels db (lit ''DCBAK'') = Some (lit ''TRUE'')"
    "labels db (lit ''DCBAK-TYPE'') = Some (lit ''mysql'')"
    by (simp_all add: off_def db_def box_def lit_def)
  have n: "name db = lit ''db''" by (simp add: db_def)
  have z: "strategy_calls state0 = []" by (simp add: strategy_calls_def state0_def)
  from opt_in_gate [of "quiet_host [off, db]" off "lit ''/backup''" state0]
    opt_in_gate [of "quiet_host [off, db]" db "lit ''/backup''" state0] l
  show ?thesis unfolding n z by simp
qed


lemma backup_django_ok:
  assumes "exec_run c dumpdata_cmd [] = Inr (0, out)"
    and "open_error w (django_backup_file (tables w) dir (name c) (strftime (clock w (tick s)))) = None"
  shows "fst (backup_django w c dir s) = Inr True"
    and "files (snd (backup_django w c dir s))
         = (files s)(django_backup_file (tables w) dir (name c) (strftime (clock w (tick s)))
                     \<mapsto> Gz out)"
  using assms
  by (simp_all add: backup_django_def datetime_now_def Let_def save_dump_def gzip_open_ok
      gz_write_files)

lemma backup_volume_ok:
  assumes "get_archive c vol = Inr (bits, None)"
    and "open_error w (volume_backup_file (tables w) dir (name c) vol (strftime (clock w (tick s))))
         = None"
  shows "fst (backup_volume w c vol dir s) = Inr True"
    and "files (snd (backup_volume w c vol dir s))
         = (files s)(volume_backup_file (tables w) dir (name c) vol (strftime (clock w (tick s)))
                     \<mapsto> Gz (concat bits))"
proof -
  let ?p = "volume_backup_file (tables w) dir (name c) vol (strftime (clock w (tick s)))"
  let ?s1 = "(emit (Call_volume (name c) vol) s)\<lparr>tick := Suc (tick s)\<rparr>"
  obtain r s2 where t: "volume_try w c vol ?p ?s1 = (r, s2)"
    by (cases "volume_try w c vol ?p ?s1")
  from volume_try_ok [OF assms, of ?s1] t
  have r: "r = Inr True" and f: "files s2 = (files ?s1)(?p \<mapsto> Gz (concat bits))" by simp_all
  from t r show "fst (backup_volume w c vol dir s) = Inr True"
    by (simp add: backup_volume_def datetime_now_def Let_def)
  from t r f show "files (snd (backup_volume w c vol dir s)) = (files s)(?p \<mapsto> Gz (concat bits))"
    by (simp add: backup_volume_def datetime_now_def Let_def)
qed

lemma django_volume_distinct:
  "django_backup_file u dir n ts \<noteq> volume_backup_file u dir n' vol ts'"
  by (simp add: django_backup_file_def volume_backup_file_def path_join_def lit_def)

lemma dump_calls_volume_label:
  "dump_calls (c\<lparr>labels := (labels c)(lit ''DCBAK-VOLUME'' := v)\<rparr>) = dump_calls c"
  by (simp add: dump_calls_def dict_get_def Let_def lit_def)

lemma volume_calls_type_label:
  "volume_calls (c\<lparr>labels := (labels c)(lit ''DCBAK-TYPE'' := t)\<rparr>) = volume_calls c"
  by (simp add: volume_calls_def volume_label_def lit_def split: option.splits)

lemma both_strategies_run:
  assumes o: "opted_in w c"
    and ty: "labels c (lit ''DCBAK-TYPE'') = Some (lit ''django'')"
    and vo: "labels c (lit ''DCBAK-VOLUME'') = Some (lit ''/data'')"
    and ex: "exec_run c dumpdata_cmd [] = Inr (0, out)"
    and ga: "get_archive c (lit ''/data'') = Inr (bits, None)"
    and od: "open_error w (django_backup_file (tables w) dir (name c) (strftime (clock w (tick s))))
             = None"
    and ov: "open_error w (volume_backup_file (tables w) dir (name c) (lit ''/data'')
                            (strftime (clock w (Suc (tick s))))) = None"
  shows "files (process_container w dir c s)
         = (files s)(django_backup_file (tables w) dir (name c) (strftime (clock w (tick s)))
                       \<mapsto> Gz out,
                     volume_backup_file (tables w) dir (name c) (lit ''/data'')
                       (strftime (clock w (Suc (tick s)))) \<mapsto> Gz (concat bits))"
    and "strategy_calls (process_container w dir c s)
         = strategy_calls s @ [Call_django (name c), Call_volume (name c) (lit ''/data'')]"
proof -
  let ?s0 = "logger_info (lit '' > Django Backup'') (logger_info (lit ''Backing up '' @ name c) s)"
  let ?pd = "django_backup_file (tables w) dir (name c) (strftime (clock w (tick s)))"
  let ?pv = "volume_backup_file (tables w) dir (name c) (lit ''/data'')
               (strftime (clock w (Suc (tick s))))"
  obtain rd sd where d: "backup_django w c dir ?s0 = (rd, sd)"
    by (cases "backup_django w c dir ?s0")
  have od': "open_error w (django_backup_file (tables w) dir (name c) (strftime (clock w (tick ?s0))))
             = None" using od by simp
  from backup_django_ok [OF ex od'] d
  have rd: "rd = Inr True" and fd: "files sd = (files s)(?pd \<mapsto> Gz out)" by simp_all
  from backup_django_fields [OF d] have td: "tick sd = Suc (tick s)" by simp
  have bt: "dict_get (labels c) (lit ''DCBAK-TYPE'') [] = lit ''django''"
    using ty by (simp add: dict_get_def)
  have ne: "lit ''django'' \<noteq> lit ''mysql''" by (simp add: lit_def)
  have ds: "dump_step w dir c (logger_info (lit ''Backing up '' @ name c) s) = (Inr (), sd)"
    using d rd bt ne by (simp add: dump_step_def Let_def)
  let ?s1 = "logger_info (lit '' > Volume Backup'') sd"
  obtain rv sv where v: "backup_volume w c (lit ''/data'') dir ?s1 = (rv, sv)"
    by (cases "backup_volume w c (lit ''/data'') dir ?s1")
  have ov': "open_error w (volume_backup_file (tables w) dir (name c) (lit ''/data'')
                            (strftime (clock w (tick ?s1)))) = None"
    using ov td by simp
  from backup_volume_ok [OF ga ov'] v td
  have rv: "rv = Inr True" and fv: "files sv = (files sd)(?pv \<mapsto> Gz (concat bits))" by simp_all
  have vl: "volume_label c = Some (lit ''/data'')"
    using vo by (simp add: volume_label_def lit_def)
  have vs: "volume_step w dir c sd = (Inr (), sv)"
    using v rv vl by (simp add: volume_step_def)
  have pc: "process_container w dir c s = sv"
    using o ds vs by (simp add: process_container_def container_try_def)
  show "files (process_container w dir c s) = (files s)(?pd \<mapsto> Gz out, ?pv \<mapsto> Gz (concat bits))"
    using pc fv fd by simp
  have "dump_calls c = [Call_django (name c)]"
    using bt ne by (simp add: dump_calls_def)
  moreover have "volume_calls c = [Call_volume (name c) (lit ''/data'')]"
    using vl by (simp add: volume_calls_def)
  ultimately show "strategy_calls (process_container w dir c s)
         = strategy_calls s @ [Call_django (name c), Call_volume (name c) (lit ''/data'')]"
    using process_container_calls [OF o, of dir s] ds by simp
qed

text \<open>
  C4, as the code has it. For an opted-in container the dump strategy is chosen by
  \<open>DCBAK-TYPE\<close> alone and the volume strategy by \<open>DCBAK-VOLUME\<close> alone, and when the dump
  strategy returns, true or false, both are entered, the dump first. The two share the
  per-container \<open>try\<close>, so the statement is for a dump step that returns. With
  \<open>DCBAK-TYPE = django\<close> and \<open>DCBAK-VOLUME = /data\<close>, a dump that exits with 0, a fetch
  that ends normally and artifacts that can be opened, both strategies run and leave two
  artifacts under two different paths.
\<close>

theorem dump_and_volume_independent:
  assumes "opted_in w c"
  shows
    "(\<not> isl (fst (dump_step w dir c (logger_info (lit ''Backing up '' @ name c) s))) \<longrightarrow>
        strategy_calls (process_container w dir c s)
        = strategy_calls s @ dump_calls c @ volume_calls c)
     \<and> (\<forall>v. dump_calls (c\<lparr>labels := (labels c)(lit ''DCBAK-VOLUME'' := v)\<rparr>) = dump_calls c)
     \<and> (\<forall>t. volume_calls (c\<lparr>labels := (labels c)(lit ''DCBAK-TYPE'' := t)\<rparr>) = volume_calls c)
     \<and> (labels c (lit ''DCBAK-TYPE'') = Some (lit ''django'')
        \<and> labels c (lit ''DCBAK-VOLUME'') = Some (lit ''/data'')
        \<and> exec_run c dumpdata_cmd [] = Inr (0, out)
        \<and> get_archive c (lit ''/data'') = Inr (bits, None)
        \<and> open_error w (django_backup_file (tables w) dir (name c) (strftime (clock w (tick s))))
          = None
        \<and> open_error w (volume_backup_file (tables w) dir (name c) (lit ''/data'')
                          (strftime (clock w (Suc (tick s))))) = None
        \<longrightarrow>
          strategy_calls (process_container w dir c s)
          = strategy_calls s @ [Call_django (name c), Call_volume (name c) (lit ''/data'')]
          \<and> files (process_container w dir c s)
               (django_backup_file (tables w) dir (name c) (strftime (clock w (tick s))))
             = Some (Gz out)
          \<and> files (process_container w dir c s)
               (volume_backup_file (tables w) dir (name c) (lit ''/data'')
                  (strftime (clock w (Suc (tick s)))))
             = Some (Gz (concat bits))
          \<and> django_backup_file (tables w) dir (name c) (strftime (clock w (tick s)))
             \<noteq> volume_backup_file (tables w) dir (name c) (lit ''/data'')
                 (strftime (clock w (Suc (tick s)))))"
proof -
  have a: "\<not> isl (fst (dump_step w dir c (logger_info (lit ''Backing up '' @ name c) s))) \<longrightarrow>
        strategy_calls (process_container w dir c s)
        = strategy_calls s @ dump_calls c @ volume_calls c"
    by (simp add: process_container_calls [OF assms])
  show ?thesis
    using a both_strategies_run [OF assms, of out bits dir s]
      django_volume_distinct [of "tables w" dir "name c" "strftime (clock w (tick s))" "name c"
        "lit ''/data''" "strftime (clock w (Suc (tick s)))"]
    by (auto simp: dump_calls_volume_label volume_calls_type_label)
qed


theorem dump_and_volume_independent_witness:
  "opted_in (quiet_host [web]) web
   \<and> strategy_calls (process_container (quiet_host [web]) (lit ''/backup'') web state0)
     = [Call_django (lit ''web_1''), Call_volume (lit ''web_1'') (lit ''/data'')]
   \<and> files (process_container (quiet_host [web]) (lit ''/backup'') web state0)
        (lit ''/backup/django_backup_web_1_20240307_090542.json.gz'') = Some (Gz (blit ''[]''))
   \<and> files (process_container (quiet_host [web]) (lit ''/backup'') web state0)
        (lit ''/backup/volume_backup_web_1_data_20240307_090543.tar.gz'') = Some (Gz (blit ''abcdef''))"
proof -
  have o: "opted_in (quiet_host [web]) web"
    by (simp add: opted_in_def dict_get_def web_def box_def lower_def lower_at_def lit_def upt_rec)
  have h: "labels web (lit ''DCBAK-TYPE'') = Some (lit ''django'')"
    "labels web (lit ''DCBAK-VOLUME'') = Some (lit ''/data'')"
    "exec_run web dumpdata_cmd [] = Inr (0, blit ''[]'')"
    "get_archive web (lit ''/data'') = Inr ([blit ''abc'', blit ''def''], None)"
    by (simp_all add: web_def box_def lit_def)
  have q: "open_error (quiet_host [web]) p = None" for p
    by (simp add: quiet_host_def)
  have n: "safe_filename (tables (quiet_host [web])) (name web) = lit ''web_1''"
    "safe_filename (tables (quiet_host [web])) (lit ''/data'') = lit ''data''"
    by (simp_all add: safe_filename_def rstrip_def isalnum_def isspace_def quiet_host_def
        ascii_only_def web_def box_def lit_def)
  have ts: "strftime (clock (quiet_host [web]) (tick state0)) = lit ''20240307_090542''"
    "strftime (clock (quiet_host [web]) (Suc (tick state0))) = lit ''20240307_090543''"
    by (simp_all add: strftime_def zpad_def decimal.simps quiet_host_def dt0_def state0_def lit_def)
  have p: "django_backup_file (tables (quiet_host [web])) (lit ''/backup'') (name web)
             (strftime (clock (quiet_host [web]) (tick state0)))
           = lit ''/backup/django_backup_web_1_20240307_090542.json.gz''"
    "volume_backup_file (tables (quiet_host [web])) (lit ''/backup'') (name web) (lit ''/data'')
             (strftime (clock (quiet_host [web]) (Suc (tick state0))))
           = lit ''/backup/volume_backup_web_1_data_20240307_090543.tar.gz''"
    unfolding ts django_backup_file_def volume_backup_file_def n
    by (simp_all add: path_join_def lit_def)
  have c: "concat [blit ''abc'', blit ''def''] = blit ''abcdef''" by (simp add: blit_def)
  have z: "strategy_calls state0 = []" by (simp add: strategy_calls_def state0_def)
  have nm: "name web = lit ''web_1''" by (simp add: web_def)
  from dump_and_volume_independent [OF o, where dir = "lit ''/backup''" and s = state0
      and out = "blit ''[]''" and bits = "[blit ''abc'', blit ''def'']"] h q o
  show ?thesis unfolding p c z by (simp add: nm)
qed

section \<open>Isolation of the containers\<close>

lemma strategy_calls_mono:
  "prefix (trace s) (trace s') \<Longrightarrow> prefix (strategy_calls s) (strategy_calls s')"
  by (simp add: strategy_calls_def filter_mono_prefix)

lemma process_container_caught:
  assumes "opted_in w c"
    and "container_try w dir c (logger_info (lit ''Backing up '' @ name c) s) = (Inl e, s1)"
  shows "process_container w dir c s
         = logger_error (lit ''Error processing container '' @ name c @ lit '': '' @ exn_text w e) s1"
  using assms by (simp add: process_container_def)

lemma process_container_announces:
  assumes "opted_in w c"
  shows "(INFO, lit ''Backing up '' @ name c) \<in> set (logs (process_container w dir c s))"
proof -
  let ?s0 = "logger_info (lit ''Backing up '' @ name c) s"
  obtain r s1 where t: "container_try w dir c ?s0 = (r, s1)"
    by (cases "container_try w dir c ?s0")
  from container_try_fields [OF t] have "prefix (logs ?s0) (logs s1)" by blast
  then have "set (logs ?s0) \<subseteq> set (logs s1)" by (rule set_mono_prefix)
  then have "(INFO, lit ''Backing up '' @ name c) \<in> set (logs s1)" by simp
  with assms t show ?thesis
    by (cases r) (simp_all add: process_container_def)
qed

text \<open>
  C2. Take any list of containers and an opted-in container \<open>c\<close> in it, after any containers
  \<open>pre\<close> and before any containers \<open>post\<close>. The loop goes on with \<open>post\<close> from the state the
  round of \<open>c\<close> leaves. If the body of the \<open>try\<close> of \<open>c\<close> raises, the round ends with the
  error logged under the name of \<open>c\<close>, and that line is in the log at the end. Whatever
  the rounds of \<open>pre\<close> did, the round of \<open>c\<close> is announced in the log and enters the dump
  strategy its labels ask for, and the volume strategy too unless its own dump raised.
\<close>

theorem container_isolation:
  assumes "cs = pre @ c # post" and "opted_in w c"
  shows
    "main_loop w dir cs s
       = main_loop w dir post (process_container w dir c (main_loop w dir pre s))
     \<and> (\<forall>e s1. container_try w dir c
                  (logger_info (lit ''Backing up '' @ name c) (main_loop w dir pre s)) = (Inl e, s1)
          \<longrightarrow> process_container w dir c (main_loop w dir pre s)
                = logger_error
                    (lit ''Error processing container '' @ name c @ lit '': '' @ exn_text w e) s1
              \<and> (ERROR, lit ''Error processing container '' @ name c @ lit '': '' @ exn_text w e)
                  \<in> set (logs (main_loop w dir cs s)))
     \<and> (INFO, lit ''Backing up '' @ name c) \<in> set (logs (main_loop w dir cs s))
     \<and> prefix
         (strategy_calls (main_loop w dir pre s) @ dump_calls c
          @ (if isl (fst (dump_step w dir c
                       (logger_info (lit ''Backing up '' @ name c) (main_loop w dir pre s))))
             then [] else volume_calls c))
         (strategy_calls (main_loop w dir cs s))"
proof -
  let ?s0 = "main_loop w dir pre s"
  let ?s1 = "process_container w dir c ?s0"
  have loop: "main_loop w dir cs s = main_loop w dir post ?s1"
    using assms(1) by (simp add: main_loop_append)
  note rest = main_loop_fields [of w dir post ?s1]
  have logs: "set (logs ?s1) \<subseteq> set (logs (main_loop w dir cs s))"
    using rest loop by (simp add: set_mono_prefix)
  have caught: "process_container w dir c ?s0
                = logger_error
                    (lit ''Error processing container '' @ name c @ lit '': '' @ exn_text w e) s1
              \<and> (ERROR, lit ''Error processing container '' @ name c @ lit '': '' @ exn_text w e)
                  \<in> set (logs (main_loop w dir cs s))"
    if t: "container_try w dir c (logger_info (lit ''Backing up '' @ name c) ?s0) = (Inl e, s1)"
    for e s1
  proof -
    note p = process_container_caught [OF assms(2) t]
    then have "(ERROR, lit ''Error processing container '' @ name c @ lit '': '' @ exn_text w e)
               \<in> set (logs ?s1)" by simp
    with p logs show ?thesis by blast
  qed
  have announced: "(INFO, lit ''Backing up '' @ name c) \<in> set (logs (main_loop w dir cs s))"
    using process_container_announces [OF assms(2), of dir ?s0] logs by blast
  have "prefix (strategy_calls ?s1) (strategy_calls (main_loop w dir cs s))"
    using rest loop by (simp add: strategy_calls_mono)
  then have calls: "prefix
         (strategy_calls ?s0 @ dump_calls c
          @ (if isl (fst (dump_step w dir c (logger_info (lit ''Backing up '' @ name c) ?s0)))
             then [] else volume_calls c))
         (strategy_calls (main_loop w dir cs s))"
    by (simp only: process_container_calls [OF assms(2)])
  from loop caught announced calls show ?thesis by blast
qed


theorem container_isolation_witness:
  "opted_in (quiet_host [broken, db]) broken \<and> opted_in (quiet_host [broken, db]) db
   \<and> fst (container_try (quiet_host [broken, db]) (lit ''/backup'') broken
            (logger_info (lit ''Backing up '' @ name broken) state0)) = Inl (ValueError 0)
   \<and> (ERROR, lit ''Error processing container broken: dictionary update sequence element #0 has length 1; 2 is required'')
       \<in> set (logs (main_loop (quiet_host [broken, db]) (lit ''/backup'') [broken, db] state0))
   \<and> prefix [Call_mysql (lit ''broken''), Call_mysql (lit ''db'')]
        (strategy_calls (main_loop (quiet_host [broken, db]) (lit ''/backup'') [broken, db] state0))"
proof -
  let ?w = "quiet_host [broken, db]"
  let ?dir = "lit ''/backup''"
  have o1: "opted_in ?w broken"
    by (simp add: opted_in_def dict_get_def broken_def box_def lower_def lower_at_def lit_def upt_rec)
  have o2: "opted_in ?w db"
    by (simp add: opted_in_def dict_get_def db_def box_def lower_def lower_at_def lit_def upt_rec)
  have ty: "dict_get (labels broken) (lit ''DCBAK-TYPE'') [] = lit ''mysql''"
    "dict_get (labels db) (lit ''DCBAK-TYPE'') [] = lit ''mysql''"
    by (simp_all add: dict_get_def broken_def db_def box_def lit_def)
  have pe: "dict_of 0 (map split_eq (env broken)) Map.empty = Inl (ValueError 0)"
    by (simp add: broken_def box_def split_eq_def lit_def)
  have bm: "fst (backup_mysql ?w broken ?dir s) = Inl (ValueError 0)" for s
    by (simp add: backup_mysql_def datetime_now_def Let_def pe split: prod.splits)
  have ds: "fst (dump_step ?w ?dir broken s) = Inl (ValueError 0)" for s
    using bm [of "logger_info (lit '' > MySQL Backup'') s"]
    by (auto simp: dump_step_def Let_def ty split: prod.splits sum.splits)
  have ct: "fst (container_try ?w ?dir broken s) = Inl (ValueError 0)" for s
    using ds [of s] by (auto simp: container_try_def split: prod.splits sum.splits)
  obtain s1 where t: "container_try ?w ?dir broken
                        (logger_info (lit ''Backing up '' @ name broken) (main_loop ?w ?dir [] state0))
                      = (Inl (ValueError 0), s1)"
    using ct [of "logger_info (lit ''Backing up '' @ name broken) (main_loop ?w ?dir [] state0)"]
    by (cases "container_try ?w ?dir broken
                 (logger_info (lit ''Backing up '' @ name broken) (main_loop ?w ?dir [] state0))")
       simp
  have m: "lit ''Error processing container '' @ name broken @ lit '': ''
             @ exn_text ?w (ValueError 0)
           = lit ''Error processing container broken: dictionary update sequence element #0 has length 1; 2 is required''"
    by (simp add: broken_def quiet_host_def decimal.simps lit_def)
  have z: "strategy_calls state0 = []" by (simp add: strategy_calls_def state0_def)
  have nb: "name broken = lit ''broken''" and nd: "name db = lit ''db''"
    by (simp_all add: broken_def db_def)
  have c0: "dump_calls broken = [Call_mysql (lit ''broken'')]"
    by (simp add: dump_calls_def ty Let_def nb)
  have c1: "strategy_calls (main_loop ?w ?dir [broken] state0) = [Call_mysql (lit ''broken'')]"
    using process_container_calls [OF o1, of ?dir state0]
    by (simp add: ds z c0)
  have c2: "dump_calls db = [Call_mysql (lit ''db'')]"
    by (simp add: dump_calls_def ty Let_def nd)
  have i1: "[broken, db] = [] @ broken # [db]" and i2: "[broken, db] = [broken] @ db # []"
    by simp_all
  from container_isolation [OF i1 o1, of ?dir state0] t
  have "(ERROR, lit ''Error processing container '' @ name broken @ lit '': ''
                  @ exn_text ?w (ValueError 0))
        \<in> set (logs (main_loop ?w ?dir [broken, db] state0))"
    by blast
  then have a: "(ERROR, lit ''Error processing container broken: dictionary update sequence element #0 has length 1; 2 is required'')
       \<in> set (logs (main_loop ?w ?dir [broken, db] state0))"
    unfolding m .
  from container_isolation [OF i2 o2, of ?dir state0]
  have "prefix ([Call_mysql (lit ''broken''), Call_mysql (lit ''db'')]
           @ (if isl (fst (dump_step ?w ?dir db
                        (logger_info (lit ''Backing up '' @ name db) (main_loop ?w ?dir [broken] state0))))
              then [] else volume_calls db))
          (strategy_calls (main_loop ?w ?dir [broken, db] state0))"
    unfolding c1 c2 by simp
  then have b: "prefix [Call_mysql (lit ''broken''), Call_mysql (lit ''db'')]
        (strategy_calls (main_loop ?w ?dir [broken, db] state0))"
    by (rule append_prefixD)
  from o1 o2 ct a b show ?thesis by simp
qed

section \<open>Start of the run\<close>

lemma ensure_backup_dir_fields:
  assumes "ensure_backup_dir w dir s = (r, s1)"
  shows "files s1 = files s \<and> logs s1 = logs s \<and> trace s1 = trace s @ [Ev_mkdir dir]
    \<and> dirs s \<subseteq> dirs s1 \<and> (\<not> isl r \<longrightarrow> r = Inr dir \<and> dir \<in> dirs s1)"
  using assms
  by (auto simp: ensure_backup_dir_def Let_def split: if_splits option.splits)

lemma ensure_backup_dir_present:
  "dir \<in> dirs s \<Longrightarrow> ensure_backup_dir w dir s = (Inr dir, emit (Ev_mkdir dir) s)"
  by (simp add: ensure_backup_dir_def Let_def)

lemma docker_connect_fields:
  assumes "docker_connect w s = (r, s1)"
  shows "files s1 = files s \<and> logs s1 = logs s \<and> dirs s1 = dirs s
    \<and> trace s1 = trace s @ Ev_from_env # (if from_env w = None then [Ev_list] else [])
    \<and> r = (case from_env w of Some e \<Rightarrow> Inl e | None \<Rightarrow> containers_list w)"
  using assms
  by (auto simp: docker_connect_def Let_def split: option.splits)

lemma main_loop_announces:
  assumes "c \<in> set cs" and "opted_in w c"
  shows "(INFO, lit ''Backing up '' @ name c) \<in> set (logs (main_loop w dir cs s))"
proof -
  from assms(1) obtain pre post where cs: "cs = pre @ c # post"
    by (auto dest: split_list)
  let ?s1 = "process_container w dir c (main_loop w dir pre s)"
  have "main_loop w dir cs s = main_loop w dir post ?s1"
    by (simp add: cs main_loop_append)
  moreover have "prefix (logs ?s1) (logs (main_loop w dir post ?s1))"
    using main_loop_fields [of w dir post ?s1] by blast
  ultimately have "set (logs ?s1) \<subseteq> set (logs (main_loop w dir cs s))"
    by (simp add: set_mono_prefix)
  with process_container_announces [OF assms(2), of dir "main_loop w dir pre s"]
  show ?thesis by blast
qed

lemma main_connect_fails:
  assumes mk: "fst (ensure_backup_dir w (resolve_backup_dir s) s) = Inr (resolve_backup_dir s)"
    and cf: "from_env w = Some e \<or> (from_env w = None \<and> containers_list w = Inl e)"
    and de: "is_DockerException e"
  shows "fst (main w s) = Inr ()"
    and "logs (snd (main w s)) = logs s @ [(ERROR, lit ''Failed to connect to Docker: '' @ exn_text w e)]"
    and "files (snd (main w s)) = files s"
    and "trace (snd (main w s))
         = trace s @ Ev_mkdir (resolve_backup_dir s) # Ev_from_env
           # (if from_env w = None then [Ev_list] else [])"
proof -
  let ?dir = "resolve_backup_dir s"
  obtain s1 where m: "ensure_backup_dir w ?dir s = (Inr ?dir, s1)"
    using mk by (cases "ensure_backup_dir w ?dir s") simp
  obtain r s2 where c: "docker_connect w s1 = (r, s2)"
    by (cases "docker_connect w s1")
  from docker_connect_fields [OF c] cf have r: "r = Inl e" by auto
  have mn: "main w s = (Inr (), logger_error (lit ''Failed to connect to Docker: '' @ exn_text w e) s2)"
    using m c r de by (simp add: main_def Let_def)
  note f1 = ensure_backup_dir_fields [OF m] and f2 = docker_connect_fields [OF c]
  show "fst (main w s) = Inr ()" by (simp add: mn)
  show "logs (snd (main w s)) = logs s @ [(ERROR, lit ''Failed to connect to Docker: '' @ exn_text w e)]"
    using f1 f2 by (simp add: mn)
  show "files (snd (main w s)) = files s" using f1 f2 by (simp add: mn)
  show "trace (snd (main w s))
         = trace s @ Ev_mkdir ?dir # Ev_from_env # (if from_env w = None then [Ev_list] else [])"
    using f1 f2 by (simp add: mn)
qed

lemma main_connected:
  assumes mk: "fst (ensure_backup_dir w (resolve_backup_dir s) s) = Inr (resolve_backup_dir s)"
    and ok: "from_env w = None" "containers_list w = Inr cs"
  shows "fst (main w s) = Inr ()"
    and "\<And>c. c \<in> set cs \<Longrightarrow> opted_in w c \<Longrightarrow>
           (INFO, lit ''Backing up '' @ name c) \<in> set (logs (snd (main w s)))"
proof -
  let ?dir = "resolve_backup_dir s"
  obtain s1 where m: "ensure_backup_dir w ?dir s = (Inr ?dir, s1)"
    using mk by (cases "ensure_backup_dir w ?dir s") simp
  obtain r s2 where c: "docker_connect w s1 = (r, s2)"
    by (cases "docker_connect w s1")
  from docker_connect_fields [OF c] ok have r: "r = Inr cs" by simp
  have mn: "main w s = (Inr (), main_loop w ?dir cs s2)"
    using m c r by (simp add: main_def Let_def)
  show "fst (main w s) = Inr ()" by (simp add: mn)
  show "(INFO, lit ''Backing up '' @ name c) \<in> set (logs (snd (main w s)))"
    if "c \<in> set cs" "opted_in w c" for c
    using main_loop_announces [OF that, of ?dir s2] by (simp add: mn)
qed

section \<open>The backup directory\<close>

lemma main_trace:
  "\<exists>rest. trace (snd (main w s)) = trace s @ Ev_mkdir (resolve_backup_dir s) # rest
      \<and> (rest \<noteq> [] \<longrightarrow> hd rest = Ev_from_env \<and> resolve_backup_dir s \<in> dirs (snd (main w s)))"
proof -
  let ?dir = "resolve_backup_dir s"
  obtain r1 s1 where m: "ensure_backup_dir w ?dir s = (r1, s1)"
    by (cases "ensure_backup_dir w ?dir s")
  note f1 = ensure_backup_dir_fields [OF m]
  show ?thesis
  proof (cases r1)
    case (Inl e)
    with m have "main w s = (Inl e, s1)" by (simp add: main_def Let_def)
    with f1 show ?thesis by simp
  next
    case (Inr d)
    with f1 have din: "?dir \<in> dirs s1" by simp
    obtain r2 s2 where c: "docker_connect w s1 = (r2, s2)"
      by (cases "docker_connect w s1")
    note f2 = docker_connect_fields [OF c]
    from f1 f2 obtain more where t2: "trace s2 = trace s @ Ev_mkdir ?dir # Ev_from_env # more"
      by auto
    from f2 din have d2: "?dir \<in> dirs s2" by simp
    show ?thesis
    proof (cases r2)
      case (Inl e)
      with m Inr c have "snd (main w s) = s2
          \<or> snd (main w s) = logger_error (lit ''Failed to connect to Docker: '' @ exn_text w e) s2"
        by (simp add: main_def Let_def)
      with t2 d2 show ?thesis by auto
    next
      case (Inr cs)
      with m \<open>r1 = Inr d\<close> c have mn: "snd (main w s) = main_loop w ?dir cs s2"
        by (simp add: main_def Let_def)
      from main_loop_fields [of w ?dir cs s2]
      obtain ys where "trace (main_loop w ?dir cs s2) = trace s2 @ ys"
        and "dirs (main_loop w ?dir cs s2) = dirs s2"
        by (auto simp: prefix_def)
      with mn t2 d2 show ?thesis by simp
    qed
  qed
qed

lemma main_returns_dir:
  assumes "fst (main w s) = Inr ()"
  shows "resolve_backup_dir s \<in> dirs (snd (main w s))"
proof -
  let ?dir = "resolve_backup_dir s"
  obtain r1 s1 where m: "ensure_backup_dir w ?dir s = (r1, s1)"
    by (cases "ensure_backup_dir w ?dir s")
  note f1 = ensure_backup_dir_fields [OF m]
  show ?thesis
  proof (cases r1)
    case (Inl e)
    with m assms show ?thesis by (simp add: main_def Let_def)
  next
    case (Inr d)
    with f1 have din: "?dir \<in> dirs s1" by simp
    obtain r2 s2 where c: "docker_connect w s1 = (r2, s2)"
      by (cases "docker_connect w s1")
    from docker_connect_fields [OF c] din have d2: "?dir \<in> dirs s2" by simp
    show ?thesis
    proof (cases r2)
      case (Inl e)
      with m Inr c assms d2 show ?thesis
        by (simp add: main_def Let_def split: if_splits)
    next
      case (Inr cs)
      with m \<open>r1 = Inr d\<close> c have "snd (main w s) = main_loop w ?dir cs s2"
        by (simp add: main_def Let_def)
      with main_loop_fields [of w ?dir cs s2] d2 show ?thesis by simp
    qed
  qed
qed

section \<open>What the strategies return and what they let through\<close>






lemma save_dump_failure:
  assumes "code \<noteq> 0" and "decode out = Some text"
  shows "save_dump w what c p code out s
         = (Inr False,
            logger_error (what @ lit '' backup failed for '' @ name c @ lit '': '' @ text) s)"
  using assms by (simp add: save_dump_def)

text \<open>
  C6 at a dump whose failure output is not UTF-8. The command exits with 1 and prints the
  byte \<open>0xFF\<close>: \<open>backup_mysql\<close> raises \<open>UnicodeDecodeError\<close> instead of returning false
  and logs nothing itself. No artifact is created; the round of the container ends in the
  handler of \<open>main\<close>, and the volume backup its labels ask for is never entered.
\<close>

theorem undecodable_failure_output_raises:
  "fst (backup_mysql (quiet_host [garbled]) garbled (lit ''/backup'') state0)
     = Inl (UnicodeDecodeError [0xFF])
   \<and> logs (snd (backup_mysql (quiet_host [garbled]) garbled (lit ''/backup'') state0)) = []
   \<and> files (snd (backup_mysql (quiet_host [garbled]) garbled (lit ''/backup'') state0)) = Map.empty
   \<and> volume_calls garbled = [Call_volume (lit ''legacy'') (lit ''/var/lib/mysql'')]
   \<and> strategy_calls (process_container (quiet_host [garbled]) (lit ''/backup'') garbled state0)
     = [Call_mysql (lit ''legacy'')]"
proof -
  let ?w = "quiet_host [garbled]"
  let ?dir = "lit ''/backup''"
  have pe: "dict_of 0 (map split_eq (env garbled)) Map.empty = Inr Map.empty"
    by (simp add: garbled_def box_def)
  have ex: "exec_run garbled cmd ev = Inr (1, [0xFF])" for cmd ev
    by (simp add: garbled_def)
  have de: "decode [0xFF] = None" by (simp add: decode_def)
  have bm: "fst (backup_mysql ?w garbled ?dir s) = Inl (UnicodeDecodeError [0xFF])
            \<and> logs (snd (backup_mysql ?w garbled ?dir s)) = logs s
            \<and> files (snd (backup_mysql ?w garbled ?dir s)) = files s" for s
    by (simp add: backup_mysql_def datetime_now_def Let_def pe ex save_dump_def de)
  have o: "opted_in ?w garbled"
    by (simp add: opted_in_def dict_get_def garbled_def box_def lower_def lower_at_def lit_def upt_rec)
  have ty: "dict_get (labels garbled) (lit ''DCBAK-TYPE'') [] = lit ''mysql''"
    by (simp add: dict_get_def garbled_def box_def lit_def)
  have nm: "name garbled = lit ''legacy''" by (simp add: garbled_def)
  have ds: "isl (fst (dump_step ?w ?dir garbled s))" for s
    using bm [of "logger_info (lit '' > MySQL Backup'') s"]
    by (auto simp: dump_step_def Let_def ty split: prod.splits sum.splits)
  have dc: "dump_calls garbled = [Call_mysql (lit ''legacy'')]"
    by (simp add: dump_calls_def ty Let_def nm)
  have vc: "volume_calls garbled = [Call_volume (lit ''legacy'') (lit ''/var/lib/mysql'')]"
    by (simp add: volume_calls_def volume_label_def garbled_def box_def lit_def)
  have z: "strategy_calls state0 = []" "logs state0 = []" "files state0 = Map.empty"
    by (simp_all add: strategy_calls_def state0_def)
  have pc: "strategy_calls (process_container ?w ?dir garbled state0) = [Call_mysql (lit ''legacy'')]"
    using process_container_calls [OF o, of ?dir state0] by (simp add: ds dc z)
  from bm [of state0] vc pc show ?thesis by (simp add: z)
qed

section \<open>Failures of the volume strategy\<close>







theorem volume_skipped_counterexample:
  "opted_in (quiet_host [stalled]) stalled
   \<and> labels stalled (lit ''DCBAK-TYPE'') = Some (lit ''django'')
   \<and> labels stalled (lit ''DCBAK-VOLUME'') = Some (lit ''/data'')
   \<and> strategy_calls (process_container (quiet_host [stalled]) (lit ''/backup'') stalled state0)
     = [Call_django (lit ''site'')]
   \<and> files (process_container (quiet_host [stalled]) (lit ''/backup'') stalled state0) = Map.empty"
proof -
  let ?w = "quiet_host [stalled]"
  let ?dir = "lit ''/backup''"
  have o: "opted_in ?w stalled"
    by (simp add: opted_in_def dict_get_def stalled_def paused_def box_def lower_def lower_at_def
        lit_def upt_rec)
  have l: "labels stalled (lit ''DCBAK-TYPE'') = Some (lit ''django'')"
    "labels stalled (lit ''DCBAK-VOLUME'') = Some (lit ''/data'')"
    by (simp_all add: stalled_def lit_def)
  have ty: "dict_get (labels stalled) (lit ''DCBAK-TYPE'') [] = lit ''django''"
    using l by (simp add: dict_get_def)
  have ne: "lit ''django'' \<noteq> lit ''mysql''" by (simp add: lit_def)
  have nm: "name stalled = lit ''site''" by (simp add: stalled_def paused_def)
  have ex: "exec_run stalled cmd ev = Inl (DockerException (lit ''409 Conflict: container is paused''))"
    for cmd ev
    by (simp add: stalled_def paused_def)
  have bd: "fst (backup_django ?w stalled ?dir s)
              = Inl (DockerException (lit ''409 Conflict: container is paused''))
            \<and> files (snd (backup_django ?w stalled ?dir s)) = files s" for s
    by (simp add: backup_django_def datetime_now_def Let_def ex)
  have ds: "isl (fst (dump_step ?w ?dir stalled s))
            \<and> files (snd (dump_step ?w ?dir stalled s)) = files s" for s
    using bd [of "logger_info (lit '' > Django Backup'') s"]
    by (auto simp: dump_step_def Let_def ty ne split: prod.splits sum.splits)
  have ct: "files (snd (container_try ?w ?dir stalled s)) = files s" for s
    using ds [of s] by (auto simp: container_try_def split: prod.splits sum.splits)
  have fl: "files (process_container ?w ?dir stalled state0) = files state0"
    using ct [of "logger_info (lit ''Backing up '' @ name stalled) state0"] o
    by (auto simp: process_container_def split: prod.splits sum.splits)
  have dc: "dump_calls stalled = [Call_django (lit ''site'')]"
    by (simp add: dump_calls_def ty ne Let_def nm)
  have z: "strategy_calls state0 = []" "files state0 = Map.empty"
    by (simp_all add: strategy_calls_def state0_def)
  have pc: "strategy_calls (process_container ?w ?dir stalled state0) = [Call_django (lit ''site'')]"
    using process_container_calls [OF o, of ?dir state0] by (simp add: ds dc z)
  from o l pc fl show ?thesis by (simp add: z)
qed

section \<open>How a run ends\<close>

lemma main_mkdir_raises:
  assumes "fst (ensure_backup_dir w (resolve_backup_dir s) s) = Inl e"
  shows "main w s = (Inl e, emit (Ev_mkdir (resolve_backup_dir s)) s)"
proof -
  obtain r s1 where m: "ensure_backup_dir w (resolve_backup_dir s) s = (r, s1)"
    by (cases "ensure_backup_dir w (resolve_backup_dir s) s")
  with assms have r: "r = Inl e" by simp
  from m r have "s1 = emit (Ev_mkdir (resolve_backup_dir s)) s"
    by (auto simp: ensure_backup_dir_def Let_def split: if_splits option.splits)
  with m r show ?thesis by (simp add: main_def Let_def)
qed

lemma main_connect_raises:
  assumes mk: "fst (ensure_backup_dir w (resolve_backup_dir s) s) = Inr (resolve_backup_dir s)"
    and cf: "from_env w = Some e \<or> (from_env w = None \<and> containers_list w = Inl e)"
    and de: "\<not> is_DockerException e"
  shows "fst (main w s) = Inl e"
    and "logs (snd (main w s)) = logs s"
    and "files (snd (main w s)) = files s"
    and "trace (snd (main w s))
         = trace s @ Ev_mkdir (resolve_backup_dir s) # Ev_from_env
           # (if from_env w = None then [Ev_list] else [])"
proof -
  let ?dir = "resolve_backup_dir s"
  obtain s1 where m: "ensure_backup_dir w ?dir s = (Inr ?dir, s1)"
    using mk by (cases "ensure_backup_dir w ?dir s") simp
  obtain r s2 where c: "docker_connect w s1 = (r, s2)"
    by (cases "docker_connect w s1")
  from docker_connect_fields [OF c] cf have r: "r = Inl e" by auto
  have mn: "main w s = (Inl e, s2)"
    using m c r de by (simp add: main_def Let_def)
  note f1 = ensure_backup_dir_fields [OF m] and f2 = docker_connect_fields [OF c]
  show "fst (main w s) = Inl e" by (simp add: mn)
  show "logs (snd (main w s)) = logs s" using f1 f2 by (simp add: mn)
  show "files (snd (main w s)) = files s" using f1 f2 by (simp add: mn)
  show "trace (snd (main w s))
         = trace s @ Ev_mkdir ?dir # Ev_from_env # (if from_env w = None then [Ev_list] else [])"
    using f1 f2 by (simp add: mn)
qed

text \<open>
  C5, as the code has it. A \<open>DockerException\<close> of the client or of the listing is the one
  failure \<open>main\<close> catches: it is logged and the run returns, with no file touched and no
  strategy entered. Two other failures end the run as early, uncaught and without a log
  line: an exception of \<open>mkdir\<close>, before the connection is attempted, and an exception of
  the connection that is not a \<open>DockerException\<close>. Nothing else stops the run: when the
  listing succeeds it returns and every opted-in container of the list is announced.
\<close>

theorem run_ends_early_only_at_start:
  "(fst (ensure_backup_dir w (resolve_backup_dir s) s) = Inl e \<longrightarrow>
      fst (main w s) = Inl e
      \<and> logs (snd (main w s)) = logs s
      \<and> files (snd (main w s)) = files s
      \<and> trace (snd (main w s)) = trace s @ [Ev_mkdir (resolve_backup_dir s)])
   \<and> (fst (ensure_backup_dir w (resolve_backup_dir s) s) = Inr (resolve_backup_dir s)
      \<and> (from_env w = Some e \<or> (from_env w = None \<and> containers_list w = Inl e)) \<longrightarrow>
        fst (main w s) = (if is_DockerException e then Inr () else Inl e)
        \<and> logs (snd (main w s))
          = logs s @ (if is_DockerException e
                      then [(ERROR, lit ''Failed to connect to Docker: '' @ exn_text w e)] else [])
        \<and> files (snd (main w s)) = files s
        \<and> strategy_calls (snd (main w s)) = strategy_calls s
        \<and> trace (snd (main w s))
          = trace s @ Ev_mkdir (resolve_backup_dir s) # Ev_from_env
            # (if from_env w = None then [Ev_list] else []))
   \<and> (fst (ensure_backup_dir w (resolve_backup_dir s) s) = Inr (resolve_backup_dir s)
      \<and> from_env w = None \<and> containers_list w = Inr cs \<longrightarrow>
        fst (main w s) = Inr ()
        \<and> (\<forall>c \<in> set cs. opted_in w c \<longrightarrow>
              (INFO, lit ''Backing up '' @ name c) \<in> set (logs (snd (main w s)))))"
proof -
  have a: "fst (main w s) = Inl e
      \<and> logs (snd (main w s)) = logs s
      \<and> files (snd (main w s)) = files s
      \<and> trace (snd (main w s)) = trace s @ [Ev_mkdir (resolve_backup_dir s)]"
    if "fst (ensure_backup_dir w (resolve_backup_dir s) s) = Inl e"
    by (simp add: main_mkdir_raises [OF that])
  have b: "fst (main w s) = (if is_DockerException e then Inr () else Inl e)
        \<and> logs (snd (main w s))
          = logs s @ (if is_DockerException e
                      then [(ERROR, lit ''Failed to connect to Docker: '' @ exn_text w e)] else [])
        \<and> files (snd (main w s)) = files s
        \<and> strategy_calls (snd (main w s)) = strategy_calls s
        \<and> trace (snd (main w s))
          = trace s @ Ev_mkdir (resolve_backup_dir s) # Ev_from_env
            # (if from_env w = None then [Ev_list] else [])"
    if mk: "fst (ensure_backup_dir w (resolve_backup_dir s) s) = Inr (resolve_backup_dir s)"
      and cf: "from_env w = Some e \<or> (from_env w = None \<and> containers_list w = Inl e)"
  proof (cases "is_DockerException e")
    case True
    note r = main_connect_fails [OF mk cf True]
    have "strategy_calls (snd (main w s)) = strategy_calls s"
      by (simp add: strategy_calls_def r(4))
    with r True show ?thesis by simp
  next
    case False
    note r = main_connect_raises [OF mk cf False]
    have "strategy_calls (snd (main w s)) = strategy_calls s"
      by (simp add: strategy_calls_def r(4))
    with r False show ?thesis by simp
  qed
  have c: "fst (main w s) = Inr ()
        \<and> (\<forall>c \<in> set cs. opted_in w c \<longrightarrow>
              (INFO, lit ''Backing up '' @ name c) \<in> set (logs (snd (main w s))))"
    if mk: "fst (ensure_backup_dir w (resolve_backup_dir s) s) = Inr (resolve_backup_dir s)"
      and ok: "from_env w = None" "containers_list w = Inr cs"
    using main_connected [OF mk ok] by blast
  from a b c show ?thesis by blast
qed


lemma state0_start:
  "resolve_backup_dir state0 = lit ''./backup''"
  "logs state0 = []" "files state0 = Map.empty" "trace state0 = []" "dirs state0 = {}"
  by (simp_all add: resolve_backup_dir_def path_exists_def state0_def)

lemma mkdir_state0:
  "fst (ensure_backup_dir w (resolve_backup_dir state0) state0)
   = (case mkdir_error w (lit ''./backup'') of
        Some e \<Rightarrow> Inl e | None \<Rightarrow> Inr (resolve_backup_dir state0))"
  by (simp add: ensure_backup_dir_def Let_def resolve_backup_dir_def path_exists_def state0_def
      split: option.splits)

theorem run_ends_early_only_at_start_witness:
  "fst (main no_daemon state0) = Inr ()
   \<and> logs (snd (main no_daemon state0))
     = [(ERROR, lit ''Failed to connect to Docker: Error while fetching server API version'')]
   \<and> files (snd (main no_daemon state0)) = Map.empty
   \<and> trace (snd (main no_daemon state0)) = [Ev_mkdir (lit ''./backup''), Ev_from_env]
   \<and> fst (main read_only state0) = Inl (OSError (lit ''Read-only file system''))
   \<and> trace (snd (main read_only state0)) = [Ev_mkdir (lit ''./backup'')]
   \<and> fst (main (quiet_host [off, db]) state0) = Inr ()
   \<and> (INFO, lit ''Backing up db'') \<in> set (logs (snd (main (quiet_host [off, db]) state0)))"
proof -
  have mk1: "fst (ensure_backup_dir no_daemon (resolve_backup_dir state0) state0)
             = Inr (resolve_backup_dir state0)"
    by (simp add: mkdir_state0 no_daemon_def quiet_host_def)
  have mk2: "fst (ensure_backup_dir (quiet_host [off, db]) (resolve_backup_dir state0) state0)
             = Inr (resolve_backup_dir state0)"
    by (simp add: mkdir_state0 quiet_host_def)
  have mk3: "fst (ensure_backup_dir read_only (resolve_backup_dir state0) state0)
             = Inl (OSError (lit ''Read-only file system''))"
    by (simp add: mkdir_state0 read_only_def)
  have fe: "from_env no_daemon = Some (DockerException (lit ''Error while fetching server API version''))"
    by (simp add: no_daemon_def)
  have m: "lit ''Failed to connect to Docker: ''
             @ exn_text no_daemon (DockerException (lit ''Error while fetching server API version''))
           = lit ''Failed to connect to Docker: Error while fetching server API version''"
    by (simp add: no_daemon_def quiet_host_def lit_def)
  have ok: "from_env (quiet_host [off, db]) = None"
    "containers_list (quiet_host [off, db]) = Inr [off, db]"
    by (simp_all add: quiet_host_def)
  have o: "opted_in (quiet_host [off, db]) db"
    by (simp add: opted_in_def dict_get_def db_def box_def lower_def lower_at_def lit_def upt_rec)
  have n: "lit ''Backing up '' @ name db = lit ''Backing up db''"
    by (simp add: db_def lit_def)
  from run_ends_early_only_at_start [where w = no_daemon and s = state0
      and e = "DockerException (lit ''Error while fetching server API version'')"] mk1 fe
  have a: "fst (main no_daemon state0) = Inr ()
   \<and> logs (snd (main no_daemon state0))
     = [(ERROR, lit ''Failed to connect to Docker: Error while fetching server API version'')]
   \<and> files (snd (main no_daemon state0)) = Map.empty
   \<and> trace (snd (main no_daemon state0)) = [Ev_mkdir (lit ''./backup''), Ev_from_env]"
    unfolding m state0_start by simp
  from run_ends_early_only_at_start [where w = read_only and s = state0
      and e = "OSError (lit ''Read-only file system'')"] mk3
  have b: "fst (main read_only state0) = Inl (OSError (lit ''Read-only file system''))
   \<and> trace (snd (main read_only state0)) = [Ev_mkdir (lit ''./backup'')]"
    unfolding state0_start by simp
  from run_ends_early_only_at_start [where w = "quiet_host [off, db]" and s = state0
      and cs = "[off, db]"] mk2 ok o
  have c: "fst (main (quiet_host [off, db]) state0) = Inr ()
   \<and> (INFO, lit ''Backing up db'') \<in> set (logs (snd (main (quiet_host [off, db]) state0)))"
    unfolding n [symmetric] by simp
  from a b c show ?thesis by blast
qed

theorem other_fatal_exits_counterexample:
  "from_env no_route = Some (OtherError (lit ''Connection aborted''))
   \<and> fst (main no_route state0) = Inl (OtherError (lit ''Connection aborted''))
   \<and> logs (snd (main no_route state0)) = []
   \<and> fst (main read_only state0) = Inl (OSError (lit ''Read-only file system''))
   \<and> logs (snd (main read_only state0)) = []
   \<and> trace (snd (main read_only state0)) = [Ev_mkdir (lit ''./backup'')]"
proof -
  have mk1: "fst (ensure_backup_dir no_route (resolve_backup_dir state0) state0)
             = Inr (resolve_backup_dir state0)"
    by (simp add: mkdir_state0 no_route_def quiet_host_def)
  have mk3: "fst (ensure_backup_dir read_only (resolve_backup_dir state0) state0)
             = Inl (OSError (lit ''Read-only file system''))"
    by (simp add: mkdir_state0 read_only_def)
  have fe: "from_env no_route = Some (OtherError (lit ''Connection aborted''))"
    by (simp add: no_route_def)
  have cf: "from_env no_route = Some (OtherError (lit ''Connection aborted''))
            \<or> (from_env no_route = None
                \<and> containers_list no_route = Inl (OtherError (lit ''Connection aborted'')))"
    using fe by simp
  have nd: "\<not> is_DockerException (OtherError (lit ''Connection aborted''))" by simp
  note r = main_connect_raises [OF mk1 cf nd]
  note q = main_mkdir_raises [OF mk3]
  from fe r(1,2) q show ?thesis by (simp add: state0_start)
qed


section \<open>The backup directory, created or not\<close>

lemma ensure_backup_dir_result:
  "ensure_backup_dir w dir s =
     (if dir \<in> dirs s then (Inr dir, emit (Ev_mkdir dir) s)
      else if files s dir \<noteq> None then (Inl (FileExistsError dir), emit (Ev_mkdir dir) s)
      else (case mkdir_error w dir of
              Some e \<Rightarrow> (Inl e, emit (Ev_mkdir dir) s)
            | None \<Rightarrow> (Inr dir, (emit (Ev_mkdir dir) s)\<lparr>dirs := insert dir (dirs s)\<rparr>)))"
  by (simp add: ensure_backup_dir_def Let_def split: option.splits)

lemma ensure_backup_dir_succeeds:
  "(fst (ensure_backup_dir w dir s) = Inr dir)
   = (dir \<in> dirs s \<or> (files s dir = None \<and> mkdir_error w dir = None))"
  by (auto simp: ensure_backup_dir_result split: option.splits)

lemma ensure_backup_dir_dirs:
  assumes "fst (ensure_backup_dir w dir s) = Inr dir"
  shows "dirs (snd (ensure_backup_dir w dir s)) = insert dir (dirs s)"
  using assms by (auto simp: ensure_backup_dir_result split: option.splits if_splits)

lemma main_dirs:
  assumes "fst (ensure_backup_dir w (resolve_backup_dir s) s) = Inr (resolve_backup_dir s)"
  shows "dirs (snd (main w s)) = insert (resolve_backup_dir s) (dirs s)"
proof -
  let ?dir = "resolve_backup_dir s"
  obtain s1 where m: "ensure_backup_dir w ?dir s = (Inr ?dir, s1)"
    using assms by (cases "ensure_backup_dir w ?dir s") simp
  from ensure_backup_dir_dirs [OF assms] m have d1: "dirs s1 = insert ?dir (dirs s)" by simp
  obtain r2 s2 where c: "docker_connect w s1 = (r2, s2)"
    by (cases "docker_connect w s1")
  from docker_connect_fields [OF c] d1 have d2: "dirs s2 = insert ?dir (dirs s)" by simp
  show ?thesis
  proof (cases r2)
    case (Inl e)
    with m c d2 show ?thesis by (simp add: main_def Let_def)
  next
    case (Inr cs)
    with m c have "snd (main w s) = main_loop w ?dir cs s2"
      by (simp add: main_def Let_def)
    with main_loop_fields [of w ?dir cs s2] d2 show ?thesis by simp
  qed
qed

lemma main_mkdir_fails:
  assumes "isl (fst (ensure_backup_dir w (resolve_backup_dir s) s))"
  shows "isl (fst (main w s))" and "dirs (snd (main w s)) = dirs s"
    and "trace (snd (main w s)) = trace s @ [Ev_mkdir (resolve_backup_dir s)]"
proof -
  from assms obtain e where "fst (ensure_backup_dir w (resolve_backup_dir s) s) = Inl e"
    by (cases "fst (ensure_backup_dir w (resolve_backup_dir s) s)") simp_all
  note r = main_mkdir_raises [OF this]
  show "isl (fst (main w s))" and "dirs (snd (main w s)) = dirs s"
    and "trace (snd (main w s)) = trace s @ [Ev_mkdir (resolve_backup_dir s)]"
    by (simp_all add: r)
qed

text \<open>
  C10, as the code has it. The backup directory is \<open>/backup\<close> when that path exists and
  \<open>./backup\<close> otherwise, and \<open>mkdir\<close> on it is the first call of the run, the connection
  the next. \<open>mkdir\<close> succeeds exactly when the directory is already there, and then the
  state is left as it is, or when nothing is at the path and the operating system does
  not refuse, and then the directory is created; after such a run, however it ends, the
  directories are those of before and the backup directory. Otherwise \<open>mkdir\<close> raises,
  the run ends there with that exception and the directories are unchanged. So the
  directory exists after every run that attempted the connection, and after every run
  that returns, the one that stops at the connection failure included.
\<close>

theorem backup_dir_ensured_first:
  "resolve_backup_dir s
     = (if path_exists s (lit ''/backup'') then lit ''/backup'' else lit ''./backup'')
   \<and> (fst (ensure_backup_dir w (resolve_backup_dir s) s) = Inr (resolve_backup_dir s))
     = (resolve_backup_dir s \<in> dirs s
        \<or> (files s (resolve_backup_dir s) = None \<and> mkdir_error w (resolve_backup_dir s) = None))
   \<and> (resolve_backup_dir s \<in> dirs s \<longrightarrow>
        ensure_backup_dir w (resolve_backup_dir s) s
        = (Inr (resolve_backup_dir s), emit (Ev_mkdir (resolve_backup_dir s)) s))
   \<and> (resolve_backup_dir s \<notin> dirs s \<and> files s (resolve_backup_dir s) = None
        \<and> mkdir_error w (resolve_backup_dir s) = None \<longrightarrow>
        ensure_backup_dir w (resolve_backup_dir s) s
        = (Inr (resolve_backup_dir s),
           (emit (Ev_mkdir (resolve_backup_dir s)) s)
             \<lparr>dirs := insert (resolve_backup_dir s) (dirs s)\<rparr>))
   \<and> (fst (ensure_backup_dir w (resolve_backup_dir s) s) = Inr (resolve_backup_dir s) \<longrightarrow>
        dirs (snd (main w s)) = insert (resolve_backup_dir s) (dirs s))
   \<and> (isl (fst (ensure_backup_dir w (resolve_backup_dir s) s)) \<longrightarrow>
        isl (fst (main w s)) \<and> dirs (snd (main w s)) = dirs s
        \<and> trace (snd (main w s)) = trace s @ [Ev_mkdir (resolve_backup_dir s)])
   \<and> (\<exists>rest. trace (snd (main w s)) = trace s @ Ev_mkdir (resolve_backup_dir s) # rest
         \<and> (rest \<noteq> [] \<longrightarrow>
              hd rest = Ev_from_env \<and> resolve_backup_dir s \<in> dirs (snd (main w s))))
   \<and> (fst (main w s) = Inr () \<longrightarrow> resolve_backup_dir s \<in> dirs (snd (main w s)))"
proof -
  let ?dir = "resolve_backup_dir s"
  have a: "?dir = (if path_exists s (lit ''/backup'') then lit ''/backup'' else lit ''./backup'')"
    by (simp add: resolve_backup_dir_def)
  have c: "?dir \<notin> dirs s \<and> files s ?dir = None \<and> mkdir_error w ?dir = None \<longrightarrow>
        ensure_backup_dir w ?dir s
        = (Inr ?dir, (emit (Ev_mkdir ?dir) s)\<lparr>dirs := insert ?dir (dirs s)\<rparr>)"
    by (simp add: ensure_backup_dir_result)
  have d: "isl (fst (ensure_backup_dir w ?dir s)) \<longrightarrow>
        isl (fst (main w s)) \<and> dirs (snd (main w s)) = dirs s
        \<and> trace (snd (main w s)) = trace s @ [Ev_mkdir ?dir]"
    using main_mkdir_fails [of w s] by blast
  from a c d ensure_backup_dir_succeeds [of w ?dir s] ensure_backup_dir_present [of ?dir s w]
    main_dirs [of w s] main_trace [of w s] main_returns_dir [of w s]
  show ?thesis by blast
qed


theorem backup_dir_ensured_first_witness:
  "resolve_backup_dir state0 = lit ''./backup''
   \<and> fst (main no_daemon state0) = Inr ()
   \<and> dirs (snd (main no_daemon state0)) = {lit ''./backup''}
   \<and> dirs (snd (main (quiet_host [web, db]) state0)) = {lit ''./backup''}
   \<and> resolve_backup_dir (state0\<lparr>dirs := {lit ''/backup''}\<rparr>) = lit ''/backup''
   \<and> dirs (snd (main no_daemon (state0\<lparr>dirs := {lit ''/backup''}\<rparr>))) = {lit ''/backup''}
   \<and> isl (fst (main read_only state0))
   \<and> dirs (snd (main read_only state0)) = {}"
proof -
  have mk1: "fst (ensure_backup_dir no_daemon (resolve_backup_dir state0) state0)
             = Inr (resolve_backup_dir state0)"
    by (simp add: mkdir_state0 no_daemon_def quiet_host_def)
  have mk2: "fst (ensure_backup_dir (quiet_host [web, db]) (resolve_backup_dir state0) state0)
             = Inr (resolve_backup_dir state0)"
    by (simp add: mkdir_state0 quiet_host_def)
  have mk3: "isl (fst (ensure_backup_dir read_only (resolve_backup_dir state0) state0))"
    by (simp add: mkdir_state0 read_only_def)
  let ?s = "state0\<lparr>dirs := {lit ''/backup''}\<rparr>"
  have d1: "resolve_backup_dir ?s = lit ''/backup''"
    by (simp add: resolve_backup_dir_def path_exists_def)
  have i1: "resolve_backup_dir ?s \<in> dirs ?s" by (simp add: d1)
  have fe: "from_env no_daemon = Some (DockerException (lit ''Error while fetching server API version''))"
    by (simp add: no_daemon_def)
  have r: "fst (main no_daemon state0) = Inr ()"
    by (rule main_connect_fails(1) [OF mk1,
          where e = "DockerException (lit ''Error while fetching server API version'')"])
       (simp_all add: fe)
  from backup_dir_ensured_first [of state0 no_daemon] mk1
  have a: "dirs (snd (main no_daemon state0)) = {lit ''./backup''}"
    by (simp add: state0_start)
  from backup_dir_ensured_first [of state0 "quiet_host [web, db]"] mk2
  have b: "dirs (snd (main (quiet_host [web, db]) state0)) = {lit ''./backup''}"
    by (simp add: state0_start)
  from backup_dir_ensured_first [of ?s no_daemon] i1
  have c: "dirs (snd (main no_daemon ?s)) = {lit ''/backup''}"
    unfolding d1 by simp
  from backup_dir_ensured_first [of state0 read_only] mk3
  have d: "isl (fst (main read_only state0)) \<and> dirs (snd (main read_only state0)) = {}"
    by (simp add: state0_start)
  from state0_start(1) r a b d1 c d show ?thesis by blast
qed

theorem backup_dir_missing_counterexample:
  "resolve_backup_dir blocked = lit ''/backup''
   \<and> fst (main (quiet_host [web, db]) blocked) = Inl (FileExistsError (lit ''/backup''))
   \<and> dirs (snd (main (quiet_host [web, db]) blocked)) = {}
   \<and> fst (main read_only state0) = Inl (OSError (lit ''Read-only file system''))
   \<and> dirs (snd (main read_only state0)) = {}"
proof -
  have d: "resolve_backup_dir blocked = lit ''/backup''"
    by (simp add: resolve_backup_dir_def path_exists_def blocked_def)
  have mk: "fst (ensure_backup_dir (quiet_host [web, db]) (resolve_backup_dir blocked) blocked)
            = Inl (FileExistsError (lit ''/backup''))"
    unfolding d by (simp add: ensure_backup_dir_result blocked_def state0_def)
  have mk3: "fst (ensure_backup_dir read_only (resolve_backup_dir state0) state0)
             = Inl (OSError (lit ''Read-only file system''))"
    by (simp add: mkdir_state0 read_only_def)
  have z: "dirs blocked = {}" by (simp add: blocked_def state0_def)
  from d main_mkdir_raises [OF mk] main_mkdir_raises [OF mk3] show ?thesis
    by (simp add: z state0_start)
qed

end
